theory Spec2Isabelle
  imports Complex_Main "HOL-Library.Word"
begin

section \<open>Strings of the scorecard script\<close>

text \<open>
  The functions below are the ones of \<^verbatim>\<open>public/script.js\<close>. A JavaScript string is a
  sequence of code units and is modelled as a \<^typ>\<open>string\<close>, one \<^typ>\<open>char\<close> per
  code unit. The functions that count, cut and join (\<^verbatim>\<open>length\<close>, \<^verbatim>\<open>substring\<close>,
  \<^verbatim>\<open>slice\<close>, \<^verbatim>\<open>split\<close>) never look at what a unit is. The built-ins that do
  (\<^verbatim>\<open>trim\<close>, \<^verbatim>\<open>toUpperCase\<close>, the digit tests of the number parsers) are modelled
  for ASCII text: a character outside ASCII is neither white space, nor a digit, nor changed
  by \<open>toUpperCase\<close> here.
\<close>

text \<open>\<^verbatim>\<open>String.prototype.substring(0, n)\<close>: a negative end index counts as 0 and an
  index beyond the end as the length.\<close>

definition substring0 :: "string \<Rightarrow> int \<Rightarrow> string" where
  "substring0 text n = take (nat n) text"

text \<open>
  \<^verbatim>\<open>
  function truncateText(text, maxLength) {
      return text.length > maxLength ? text.substring(0, maxLength - 2) + '..' : text;
  }
  \<close>
\<close>

definition truncateText :: "string \<Rightarrow> int \<Rightarrow> string" where
  "truncateText text maxLength =
     (if int (length text) > maxLength then substring0 text (maxLength - 2) @ ''..'' else text)"

text \<open>White space as \<^verbatim>\<open>trim\<close> sees it: tab, line feed, vertical tab, form feed,
  carriage return and space.\<close>

definition isWhiteSpace :: "char \<Rightarrow> bool" where
  "isWhiteSpace c \<longleftrightarrow> (of_char c :: nat) \<in> {9, 10, 11, 12, 13, 32}"

definition trimStart :: "string \<Rightarrow> string" where
  "trimStart s = dropWhile isWhiteSpace s"

definition trim :: "string \<Rightarrow> string" where
  "trim s = rev (dropWhile isWhiteSpace (rev (dropWhile isWhiteSpace s)))"

definition toUpperChar :: "char \<Rightarrow> char" where
  "toUpperChar c =
     (let n = (of_char c :: nat) in if 97 \<le> n \<and> n \<le> 122 then char_of (n - 32) else c)"

definition toUpperCase :: "string \<Rightarrow> string" where
  "toUpperCase s = map toUpperChar s"

text \<open>The character class \<^verbatim>\<open>[A-Z]\<close>.\<close>

definition isUpperAZ :: "char \<Rightarrow> bool" where
  "isUpperAZ c \<longleftrightarrow> 65 \<le> (of_char c :: nat) \<and> (of_char c :: nat) \<le> 90"

text \<open>
  \<^verbatim>\<open>String.prototype.split(sep)\<close> with a string separator: the pieces between the
  occurrences of \<open>sep\<close>, found from left to right without overlap. \<open>acc\<close> holds the
  current piece, reversed. An empty separator splits into single characters.
\<close>

function js_split_from :: "string \<Rightarrow> string \<Rightarrow> string \<Rightarrow> string list" where
  "js_split_from sep acc [] = [rev acc]"
| "js_split_from sep acc (c # cs) =
     (if sep \<noteq> [] \<and> take (length sep) (c # cs) = sep
      then rev acc # js_split_from sep [] (drop (length sep) (c # cs))
      else js_split_from sep (c # acc) cs)"
  by pat_completeness auto
termination
  by (relation "measure (\<lambda>(sep, acc, s). length s)") auto

definition js_split :: "string \<Rightarrow> string \<Rightarrow> string list" where
  "js_split sep s = (if sep = [] then map (\<lambda>c. [c]) s else js_split_from sep [] s)"

text \<open>\<^verbatim>\<open>Array.prototype.join(sep)\<close> on an array of strings.\<close>

fun js_join :: "string \<Rightarrow> string list \<Rightarrow> string" where
  "js_join sep [] = []"
| "js_join sep [x] = x"
| "js_join sep (x # y # ys) = x @ sep @ js_join sep (y # ys)"

section \<open>Mods override\<close>

text \<open>A mod as the scorecard uses it: an object with an \<^verbatim>\<open>acronym\<close>.\<close>

record mod_entry =
  acronym :: string

text \<open>The regular expression \<^verbatim>\<open>/^[A-Z]{2}$/\<close>.\<close>

definition isTwoLetters :: "string \<Rightarrow> bool" where
  "isTwoLetters s \<longleftrightarrow> length s = 2 \<and> list_all isUpperAZ s"

text \<open>
  \<^verbatim>\<open>
  function parseModsString(modsString) {
      if (!modsString || modsString.trim() === '') return [];
      const modCodes = modsString.split(',').map(mod => mod.trim().toUpperCase());
      const validMods = modCodes.filter(mod => /^[A-Z]{2}$/.test(mod));
      return validMods.map(code => ({ acronym: code }));
  }
  \<close>
\<close>

definition parseModsString :: "string \<Rightarrow> mod_entry list" where
  "parseModsString modsString =
     (if modsString = [] \<or> trim modsString = [] then []
      else
        let modCodes = map (\<lambda>m. toUpperCase (trim m)) (js_split '','' modsString);
            validMods = filter isTwoLetters modCodes
        in map (\<lambda>code. \<lparr>acronym = code\<rparr>) validMods)"

section \<open>Gradient colour\<close>

text \<open>
  The two globals \<^verbatim>\<open>gradientCanvas\<close> and \<^verbatim>\<open>gradientCtx\<close> are \<open>None\<close> until the
  gradient image has loaded. Of the canvas only its size is read; of the context only
  \<^verbatim>\<open>getImageData(x, y, 1, 1).data\<close>, three bytes of which are used. \<open>None\<close> stands for
  a call that throws, which the function catches.
\<close>

record canvas =
  width :: nat
  height :: nat

record context2d =
  getImageData :: "int \<Rightarrow> int \<Rightarrow> (8 word \<times> 8 word \<times> 8 word) option"

definition colourMap :: "(int \<times> string) list" where
  "colourMap =
     [(0, ''#666666''), (1, ''#4FC3F7''), (2, ''#4CAF50''), (3, ''#FFEB3B''),
      (4, ''#FF9800''), (5, ''#FF5722''), (6, ''#E91E63''), (7, ''#9C27B0''),
      (8, ''#673AB7''), (9, ''#3F51B5''), (10, ''#000000'')]"

text \<open>\<^verbatim>\<open>n.toString(16).padStart(2, '0')\<close> for a byte.\<close>

definition hexDigit :: "nat \<Rightarrow> char" where
  "hexDigit n = ''0123456789abcdef'' ! (n mod 16)"

definition toString16 :: "8 word \<Rightarrow> string" where
  "toString16 b =
     (if unat b < 16 then [hexDigit (unat b)]
      else [hexDigit (unat b div 16), hexDigit (unat b mod 16)])"

definition padStart2 :: "string \<Rightarrow> string" where
  "padStart2 s = replicate (2 - length s) (CHR ''0'') @ s"

text \<open>
  \<^verbatim>\<open>
  function getGradientColour(starRating) {
      if (!gradientCanvas || !gradientCtx) {
          const colourMap = { 0: "#666666", ..., 10: "#000000" };
          const index = Math.min(Math.floor(starRating), 10);
          return colourMap[index] || "#ff6b6b";
      }
      const clamped = Math.max(0, Math.min(10, starRating));
      const position = clamped / 10.0;
      const x = Math.floor(position * (gradientCanvas.width - 1));
      const y = Math.floor(gradientCanvas.height / 2);
      try {
          const pixel = gradientCtx.getImageData(x, y, 1, 1).data;
          return `#${pixel[0].toString(16).padStart(2, '0')}${...pixel[1]...}${...pixel[2]...}`;
      } catch (error) {
          return "#ff6b6b";
      }
  }
  \<close>
  The star rating is a finite number (it arrives as JSON), taken here with its exact value.
\<close>

definition getGradientColour :: "canvas option \<Rightarrow> context2d option \<Rightarrow> rat \<Rightarrow> string" where
  "getGradientColour gradientCanvas gradientCtx starRating =
     (case (gradientCanvas, gradientCtx) of
        (Some cv, Some ctx) \<Rightarrow>
          (let clamped = max 0 (min 10 starRating);
               position = clamped / 10;
               x = \<lfloor>position * (rat_of_nat (width cv) - 1)\<rfloor>;
               y = \<lfloor>rat_of_nat (height cv) / 2\<rfloor>
           in case getImageData ctx x y of
                Some (r, g, b) \<Rightarrow>
                  ''#'' @ padStart2 (toString16 r) @ padStart2 (toString16 g)
                        @ padStart2 (toString16 b)
              | None \<Rightarrow> ''#ff6b6b'')
      | _ \<Rightarrow>
          (let index = min \<lfloor>starRating\<rfloor> 10
           in case map_of colourMap index of Some c \<Rightarrow> c | None \<Rightarrow> ''#ff6b6b''))"

section \<open>Scorecard height\<close>

text \<open>The right section of the card, as far as the height calculation reads it.\<close>

record element =
  scrollHeight :: int
  clientHeight :: int

text \<open>
  \<^verbatim>\<open>
  function calculateRequiredHeight(extraText, hasFullCombo) {
      const baseHeight = 600;
      let additionalHeight = 0;
      if (extraText) {
          const lines = extraText.split('<br>').length;
          if (lines > 2) {
              additionalHeight += (lines - 2) * 30;
          }
      }
      if (hasFullCombo) {
          const rightSection = document.querySelector('.right-section');
          if (rightSection) {
              const contentHeight = rightSection.scrollHeight;
              const containerHeight = rightSection.clientHeight;
              if (contentHeight > containerHeight) {
                  additionalHeight += Math.max(0, contentHeight - containerHeight + 20);
              }
          }
      }
      return baseHeight + additionalHeight;
  }
  \<close>
  \<open>rightSection\<close> is what \<^verbatim>\<open>document.querySelector('.right-section')\<close> finds.
\<close>

definition calculateRequiredHeight :: "string \<Rightarrow> bool \<Rightarrow> element option \<Rightarrow> int" where
  "calculateRequiredHeight extraText hasFullCombo rightSection =
     (let baseHeight = 600;
          additionalHeight = 0;
          additionalHeight =
            (if extraText \<noteq> [] then
               (let lines = int (length (js_split ''<br>'' extraText))
                in if lines > 2 then additionalHeight + (lines - 2) * 30 else additionalHeight)
             else additionalHeight);
          additionalHeight =
            (if hasFullCombo then
               (case rightSection of
                  Some rs \<Rightarrow>
                    (let contentHeight = scrollHeight rs;
                         containerHeight = clientHeight rs
                     in if contentHeight > containerHeight
                        then additionalHeight + max 0 (contentHeight - containerHeight + 20)
                        else additionalHeight)
                | None \<Rightarrow> additionalHeight)
             else additionalHeight)
      in baseHeight + additionalHeight)"

section \<open>Title space\<close>

text \<open>
  \<^verbatim>\<open>
  function calculateTitleSpace() {
      const scorecardWidth = 800;
      const horizontalPadding = 40;
      const modIcons = document.querySelectorAll('.mod-icon');
      const modIconsWidth = modIcons.length * 70;
      const minSpacing = modIcons.length > 0 ? 20 : 0;
      const availableWidth = scorecardWidth - horizontalPadding - modIconsWidth - minSpacing;
      return Math.max(200, availableWidth);
  }
  \<close>
  The only input is the number of \<^verbatim>\<open>.mod-icon\<close> elements of the document.
\<close>

definition calculateTitleSpace :: "nat \<Rightarrow> int" where
  "calculateTitleSpace modIcons =
     (let scorecardWidth = 800;
          horizontalPadding = 40;
          modIconsWidth = int modIcons * 70;
          minSpacing = (if modIcons > 0 then 20 else 0);
          availableWidth = scorecardWidth - horizontalPadding - modIconsWidth - minSpacing
      in max 200 availableWidth)"

section \<open>Title fitting\<close>

text \<open>
  \<^verbatim>\<open>
  function adjustTitleSize(title) {
      const titleElement = document.querySelector('.map-title');
      if (!titleElement) return title;
      const availableWidth = calculateTitleSpace();
      const font = `600 35px 'Fredoka', cursive`;
      const textWidth = getTextWidth(title, font);
      if (textWidth <= availableWidth) {
          titleElement.className = 'map-title';
          return title;
      }
      let truncatedTitle = title;
      const ellipsis = '..';
      while (getTextWidth(truncatedTitle + ellipsis, font) > availableWidth
             && truncatedTitle.length > 5) {
          truncatedTitle = truncatedTitle.slice(0, -1);
      }
      titleElement.className = 'map-title';
      return truncatedTitle.length < title.length ? truncatedTitle + ellipsis : truncatedTitle;
  }
  \<close>
  \<^verbatim>\<open>getTextWidth\<close> asks a canvas for the width of a text in the one font used here, and
  rounds it up; what it answers is the browser's business, so it is a parameter. The other
  inputs from the document are whether the title element exists and the number of mod
  icons. \<open>truncateLoop\<close> is the \<^verbatim>\<open>while\<close> loop, \<open>fitTitle\<close> the function from the
  point where the available width is known.
\<close>

function truncateLoop :: "(string \<Rightarrow> int) \<Rightarrow> int \<Rightarrow> string \<Rightarrow> string" where
  "truncateLoop getTextWidth availableWidth truncatedTitle =
     (if getTextWidth (truncatedTitle @ ''..'') > availableWidth \<and> length truncatedTitle > 5
      then truncateLoop getTextWidth availableWidth (butlast truncatedTitle)
      else truncatedTitle)"
  by pat_completeness auto
termination
  by (relation "measure (\<lambda>(w, a, t). length t)") auto

definition fitTitle :: "(string \<Rightarrow> int) \<Rightarrow> int \<Rightarrow> string \<Rightarrow> string" where
  "fitTitle getTextWidth availableWidth title =
     (let textWidth = getTextWidth title
      in if textWidth \<le> availableWidth then title
         else
           (let truncatedTitle = truncateLoop getTextWidth availableWidth title
            in if length truncatedTitle < length title then truncatedTitle @ ''..''
               else truncatedTitle))"

definition adjustTitleSize :: "(string \<Rightarrow> int) \<Rightarrow> bool \<Rightarrow> nat \<Rightarrow> string \<Rightarrow> string" where
  "adjustTitleSize getTextWidth titleElement modIcons title =
     (if \<not> titleElement then title
      else fitTitle getTextWidth (calculateTitleSpace modIcons) title)"

section \<open>Numbers\<close>

text \<open>
  A JavaScript number is \<open>NaN\<close>, one of the two infinities or a finite value. Finite
  values are taken with their exact rational value: the rounding of a parsed decimal to
  the nearest binary64 number and the overflow of huge values to infinity are not
  modelled, and neither is the sign of zero.
\<close>

datatype jsnum = NaN | PosInf | NegInf | Num rat

text \<open>Truthiness of a number, as \<^verbatim>\<open>||\<close> tests it: \<open>NaN\<close> and 0 are falsy.\<close>

definition truthy :: "jsnum \<Rightarrow> bool" where
  "truthy v \<longleftrightarrow> v \<noteq> NaN \<and> v \<noteq> Num 0"

text \<open>\<^verbatim>\<open>Math.round\<close>: the nearest integer, a tie going up.\<close>

definition Math_round :: "jsnum \<Rightarrow> jsnum" where
  "Math_round v = (case v of Num r \<Rightarrow> Num (of_int \<lfloor>r + 1 / 2\<rfloor>) | _ \<Rightarrow> v)"

text \<open>The division \<^verbatim>\<open>x / 100\<close>.\<close>

definition div100 :: "jsnum \<Rightarrow> jsnum" where
  "div100 v = (case v of Num r \<Rightarrow> Num (r / 100) | _ \<Rightarrow> v)"

text \<open>Digits: the value of a character as a digit in a radix up to 16.\<close>

definition digitValue :: "char \<Rightarrow> nat option" where
  "digitValue c =
     (let n = (of_char c :: nat) in
      if 48 \<le> n \<and> n \<le> 57 then Some (n - 48)
      else if 97 \<le> n \<and> n \<le> 102 then Some (n - 87)
      else if 65 \<le> n \<and> n \<le> 70 then Some (n - 55)
      else None)"

definition isRadixDigit :: "nat \<Rightarrow> char \<Rightarrow> bool" where
  "isRadixDigit R c = (case digitValue c of Some d \<Rightarrow> d < R | None \<Rightarrow> False)"

definition digitsValue :: "nat \<Rightarrow> string \<Rightarrow> int" where
  "digitsValue R ds =
     foldl (\<lambda>v c. v * int R + (case digitValue c of Some d \<Rightarrow> int d | None \<Rightarrow> 0)) 0 ds"

text \<open>
  \<^verbatim>\<open>parseInt(string)\<close> with no radix argument, by the steps of the language
  specification: leading white space is skipped, a sign is read, a prefix \<^verbatim>\<open>0x\<close> or
  \<^verbatim>\<open>0X\<close> selects radix 16 (otherwise 10), and the longest run of digits is the value;
  with no digit the result is \<open>NaN\<close>. Whatever follows the digits is ignored.
\<close>

definition parseInt :: "string \<Rightarrow> jsnum" where
  "parseInt string =
     (let S = trimStart string;
          sign = (if S \<noteq> [] \<and> hd S = CHR ''-'' then - 1 else 1 :: int);
          S = (if S \<noteq> [] \<and> (hd S = CHR ''+'' \<or> hd S = CHR ''-'') then tl S else S);
          hex = (take 2 S = ''0x'' \<or> take 2 S = ''0X'');
          R = (if hex then 16 else 10);
          S = (if hex then drop 2 S else S);
          Z = takeWhile (isRadixDigit R) S
      in if Z = [] then NaN else Num (of_int (sign * digitsValue R Z)))"

text \<open>The exponent part \<^verbatim>\<open>[eE][+-]?[0-9]+\<close> at the start of a string, 0 if there is none.\<close>

definition exponentPart :: "string \<Rightarrow> int" where
  "exponentPart s =
     (if s \<noteq> [] \<and> (hd s = CHR ''e'' \<or> hd s = CHR ''E'') then
        (let t = tl s;
             esign = (if t \<noteq> [] \<and> hd t = CHR ''-'' then - 1 else 1 :: int);
             t = (if t \<noteq> [] \<and> (hd t = CHR ''+'' \<or> hd t = CHR ''-'') then tl t else t);
             ds = takeWhile (isRadixDigit 10) t
         in if ds = [] then 0 else esign * digitsValue 10 ds)
      else 0)"

text \<open>The value \<open>m * 10\<^sup>e\<close>.\<close>

definition scale10 :: "int \<Rightarrow> int \<Rightarrow> rat" where
  "scale10 m e = (if 0 \<le> e then of_int (m * 10 ^ nat e) else of_int m / of_int (10 ^ nat (- e)))"

text \<open>
  \<^verbatim>\<open>parseFloat(string)\<close>: leading white space is skipped and the longest prefix that is
  a decimal literal is the value: a sign, then \<^verbatim>\<open>Infinity\<close> or digits with an optional
  fraction and an optional exponent. With no such prefix the result is \<open>NaN\<close>.
\<close>

definition parseFloat :: "string \<Rightarrow> jsnum" where
  "parseFloat string =
     (let S = trimStart string;
          neg = (S \<noteq> [] \<and> hd S = CHR ''-'');
          S = (if S \<noteq> [] \<and> (hd S = CHR ''+'' \<or> hd S = CHR ''-'') then tl S else S)
      in if take 8 S = ''Infinity'' then (if neg then NegInf else PosInf)
         else
           (let ip = takeWhile (isRadixDigit 10) S;
                r1 = dropWhile (isRadixDigit 10) S;
                dot = (r1 \<noteq> [] \<and> hd r1 = CHR ''.'');
                fp = (if dot then takeWhile (isRadixDigit 10) (tl r1) else []);
                r2 = (if dot then dropWhile (isRadixDigit 10) (tl r1) else r1);
                m = digitsValue 10 (ip @ fp);
                e = exponentPart r2 - int (length fp)
            in if ip = [] \<and> fp = [] then NaN
               else Num (scale10 (if neg then - m else m) e)))"

text \<open>
  \<^verbatim>\<open>
  function formatScore(score) {
      return score.toLocaleString();
  }
  \<close>
  What \<^verbatim>\<open>toLocaleString\<close> prints depends on the locale of the browser, so it is a
  parameter of every function that formats a number.
\<close>

definition formatScore :: "(jsnum \<Rightarrow> string) \<Rightarrow> jsnum \<Rightarrow> string" where
  "formatScore toLocaleString score = toLocaleString score"

text \<open>
  A sample locale, for running the functions on concrete input: the \<^verbatim>\<open>en-US\<close> format
  of an integer value, digits in groups of three separated by commas. (A value with a
  fraction is printed by its integer part here; no function below formats one.)
\<close>

definition digitChar :: "int \<Rightarrow> char" where
  "digitChar d = ''0123456789'' ! nat d"

function decimalDigits :: "int \<Rightarrow> string" where
  "decimalDigits n =
     (if n < 10 then [digitChar n] else decimalDigits (n div 10) @ [digitChar (n mod 10)])"
  by pat_completeness auto
termination
  by (relation "measure nat") auto

function groupThousands :: "string \<Rightarrow> string" where
  "groupThousands ds =
     (if length ds \<le> 3 then ds
      else groupThousands (take (length ds - 3) ds) @ '','' @ drop (length ds - 3) ds)"
  by pat_completeness auto
termination
  by (relation "measure length") auto

definition infinitySign :: string where
  "infinitySign = [char_of (226 :: nat), char_of (136 :: nat), char_of (158 :: nat)]"

definition en_US_integer :: "jsnum \<Rightarrow> string" where
  "en_US_integer v =
     (case v of
        NaN \<Rightarrow> ''NaN''
      | PosInf \<Rightarrow> infinitySign
      | NegInf \<Rightarrow> ''-'' @ infinitySign
      | Num r \<Rightarrow>
          (if \<lfloor>r\<rfloor> < 0 then ''-'' else '''') @ groupThousands (decimalDigits \<bar>\<lfloor>r\<rfloor>\<bar>))"

section \<open>Score data\<close>

text \<open>
  The score as the server sends it (\<^verbatim>\<open>data.score\<close> of \<^verbatim>\<open>currentScoreData\<close>); the
  field \<open>up_x\<close> is \<^verbatim>\<open>data.score.x\<close>. The server fills every count with a number.
\<close>

record upstream_score =
  up_score :: jsnum
  up_classic_score :: jsnum
  up_mods :: "mod_entry list"
  up_c300 :: jsnum
  up_c100 :: jsnum
  up_c50 :: jsnum
  up_cEnds :: jsnum
  up_cSliders :: jsnum
  up_misses :: jsnum
  up_rank :: string
  up_accuracy :: jsnum
  up_full_combo :: bool
  up_max_combo :: jsnum
  up_pp :: jsnum
  up_leaderboard :: jsnum

record beatmap =
  title :: string
  difficulty :: string
  star_rating :: rat
  status :: string

text \<open>\<^verbatim>\<open>currentScoreData\<close> and \<^verbatim>\<open>currentMapData\<close>, each \<open>None\<close> while it is \<^verbatim>\<open>null\<close>.\<close>

record score_response =
  lazer :: bool
  data_score :: upstream_score
  score_beatmap :: beatmap

record map_response =
  map_beatmap :: beatmap

text \<open>
  The override fields as \<^verbatim>\<open>getScoreOverrides\<close> reads them, each the \<^verbatim>\<open>value\<close> of an
  input element, a string; the field \<open>ov_x\<close> is \<^verbatim>\<open>overrides.x\<close>.
\<close>

record overrides =
  ov_score :: string
  ov_count300 :: string
  ov_count100 :: string
  ov_count50 :: string
  ov_countMiss :: string
  ov_countSliderEnds :: string
  ov_combo :: string
  ov_accuracy :: string
  ov_pp :: string
  ov_rank :: string
  ov_mods :: string
  ov_leaderboard :: string

text \<open>
  The record \<^verbatim>\<open>extractScoreData\<close> returns. The map preview has no
  \<^verbatim>\<open>classic_score\<close> property: \<open>None\<close> stands for \<^verbatim>\<open>undefined\<close>.
\<close>

record scoreData =
  score :: jsnum
  classic_score :: "jsnum option"
  c300 :: jsnum
  c100 :: jsnum
  c50 :: jsnum
  misses :: jsnum
  cEnds :: jsnum
  max_combo :: jsnum
  accuracy :: jsnum
  pp :: jsnum
  rank :: string
  mods :: "mod_entry list"
  leaderboard :: jsnum
  full_combo :: bool
  cSliders :: jsnum

text \<open>
  \<^verbatim>\<open>
  function extractScoreData() {
      const overrides = getScoreOverrides();
      if (currentScoreData) {
          const data = currentScoreData;
          return {
              score: overrides.score !== '' ? parseInt(overrides.score)
                       : (data.lazer ? data.score.score : data.score.classic_score),
              classic_score: overrides.score !== '' ? parseInt(overrides.score)
                       : data.score.classic_score,
              c300: overrides.count300 !== '' ? parseInt(overrides.count300) : data.score.c300,
              c100: ..., c50: ..., misses: ..., cEnds: ..., max_combo: ...,
              accuracy: overrides.accuracy !== '' ? parseFloat(overrides.accuracy) / 100
                       : data.score.accuracy,
              pp: overrides.pp !== '' ? parseFloat(overrides.pp) : data.score.pp,
              rank: overrides.rank !== '' ? overrides.rank : data.score.rank,
              mods: overrides.mods !== '' ? parseModsString(overrides.mods) : data.score.mods,
              leaderboard: overrides.leaderboard !== '' ? parseInt(overrides.leaderboard)
                       : data.score.leaderboard,
              full_combo: data.score.full_combo,
              cSliders: data.score.cSliders
          };
      } else if (currentMapData) {
          return {
              score: overrides.score !== '' ? parseInt(overrides.score) : 0,
              c300: overrides.count300 !== '' ? parseInt(overrides.count300) : 0,
              c100: ..., c50: ..., misses: ..., cEnds: ...,
              cSliders: 100,
              max_combo: overrides.combo !== '' ? parseInt(overrides.combo) : 0,
              accuracy: overrides.accuracy !== '' ? parseFloat(overrides.accuracy) / 100 : 0,
              pp: overrides.pp !== '' ? parseFloat(overrides.pp) : 0,
              rank: overrides.rank !== '' ? overrides.rank : 'F',
              mods: overrides.mods !== '' ? parseModsString(overrides.mods) : [],
              leaderboard: overrides.leaderboard !== '' ? parseInt(overrides.leaderboard) : 0,
              full_combo: false
          };
      }
      return null;
  }
  \<close>
  The overrides and the two globals are arguments; \<open>None\<close> is \<^verbatim>\<open>null\<close>.
\<close>

definition extractScoreData ::
  "overrides \<Rightarrow> score_response option \<Rightarrow> map_response option \<Rightarrow> scoreData option" where
  "extractScoreData overrides currentScoreData currentMapData =
     (case currentScoreData of
        Some data \<Rightarrow>
          Some \<lparr>
            score = (if ov_score overrides \<noteq> '''' then parseInt (ov_score overrides)
                     else (if lazer data then up_score (data_score data)
                           else up_classic_score (data_score data))),
            classic_score = Some (if ov_score overrides \<noteq> '''' then parseInt (ov_score overrides)
                     else up_classic_score (data_score data)),
            c300 = (if ov_count300 overrides \<noteq> '''' then parseInt (ov_count300 overrides)
                    else up_c300 (data_score data)),
            c100 = (if ov_count100 overrides \<noteq> '''' then parseInt (ov_count100 overrides)
                    else up_c100 (data_score data)),
            c50 = (if ov_count50 overrides \<noteq> '''' then parseInt (ov_count50 overrides)
                   else up_c50 (data_score data)),
            misses = (if ov_countMiss overrides \<noteq> '''' then parseInt (ov_countMiss overrides)
                      else up_misses (data_score data)),
            cEnds = (if ov_countSliderEnds overrides \<noteq> ''''
                     then parseInt (ov_countSliderEnds overrides)
                     else up_cEnds (data_score data)),
            max_combo = (if ov_combo overrides \<noteq> '''' then parseInt (ov_combo overrides)
                         else up_max_combo (data_score data)),
            accuracy = (if ov_accuracy overrides \<noteq> ''''
                        then div100 (parseFloat (ov_accuracy overrides))
                        else up_accuracy (data_score data)),
            pp = (if ov_pp overrides \<noteq> '''' then parseFloat (ov_pp overrides)
                  else up_pp (data_score data)),
            rank = (if ov_rank overrides \<noteq> '''' then ov_rank overrides
                    else up_rank (data_score data)),
            mods = (if ov_mods overrides \<noteq> '''' then parseModsString (ov_mods overrides)
                    else up_mods (data_score data)),
            leaderboard = (if ov_leaderboard overrides \<noteq> ''''
                           then parseInt (ov_leaderboard overrides)
                           else up_leaderboard (data_score data)),
            full_combo = up_full_combo (data_score data),
            cSliders = up_cSliders (data_score data)
          \<rparr>
      | None \<Rightarrow>
          (case currentMapData of
             Some m \<Rightarrow>
               Some \<lparr>
                 score = (if ov_score overrides \<noteq> '''' then parseInt (ov_score overrides)
                          else Num 0),
                 classic_score = None,
                 c300 = (if ov_count300 overrides \<noteq> '''' then parseInt (ov_count300 overrides)
                         else Num 0),
                 c100 = (if ov_count100 overrides \<noteq> '''' then parseInt (ov_count100 overrides)
                         else Num 0),
                 c50 = (if ov_count50 overrides \<noteq> '''' then parseInt (ov_count50 overrides)
                        else Num 0),
                 misses = (if ov_countMiss overrides \<noteq> '''' then parseInt (ov_countMiss overrides)
                           else Num 0),
                 cEnds = (if ov_countSliderEnds overrides \<noteq> ''''
                          then parseInt (ov_countSliderEnds overrides)
                          else Num 0),
                 max_combo = (if ov_combo overrides \<noteq> '''' then parseInt (ov_combo overrides)
                              else Num 0),
                 accuracy = (if ov_accuracy overrides \<noteq> ''''
                             then div100 (parseFloat (ov_accuracy overrides))
                             else Num 0),
                 pp = (if ov_pp overrides \<noteq> '''' then parseFloat (ov_pp overrides)
                       else Num 0),
                 rank = (if ov_rank overrides \<noteq> '''' then ov_rank overrides else ''F''),
                 mods = (if ov_mods overrides \<noteq> '''' then parseModsString (ov_mods overrides)
                         else []),
                 leaderboard = (if ov_leaderboard overrides \<noteq> ''''
                                then parseInt (ov_leaderboard overrides)
                                else Num 0),
                 full_combo = False,
                 cSliders = Num 100
               \<rparr>
           | None \<Rightarrow> None))"

text \<open>
  The score shown by \<^verbatim>\<open>generateScorecardHtml\<close>:
  \<^verbatim>\<open>
  <div class="score">Score: ${formatScore(isLazer ? scoreData.score
                                  : (scoreData.classic_score || scoreData.score))}</div>
  \<close>
  \<open>displayedScore\<close> is the number handed to \<^verbatim>\<open>formatScore\<close>, \<open>scoreLine\<close> the text of
  the element.
\<close>

definition displayedScore :: "bool \<Rightarrow> scoreData \<Rightarrow> jsnum" where
  "displayedScore isLazer sd =
     (if isLazer then score sd
      else (case classic_score sd of
              Some v \<Rightarrow> if truthy v then v else score sd
            | None \<Rightarrow> score sd))"

definition scoreLine :: "(jsnum \<Rightarrow> string) \<Rightarrow> bool \<Rightarrow> scoreData \<Rightarrow> string" where
  "scoreLine toLocaleString isLazer sd =
     ''Score: '' @ formatScore toLocaleString (displayedScore isLazer sd)"

section \<open>Performance points\<close>

text \<open>The heart \<^verbatim>\<open>U+2665\<close>, in UTF-8.\<close>

definition heart :: string where
  "heart = [char_of (226 :: nat), char_of (153 :: nat), char_of (165 :: nat)]"

text \<open>
  \<^verbatim>\<open>
  function getPpDisplay(scoreData, isLoved) {
      const ppOverride = document.getElementById('ppOverride').value;
      if (isLoved) {
          if (ppOverride === '' || ppOverride === null) {
              return HEART;
          } else {
              return `${formatScore(Math.round(parseFloat(ppOverride)))}pp HEART`;
          }
      } else {
          return `${formatScore(Math.round(scoreData.pp))}pp`;
      }
  }
  \<close>
  (\<^verbatim>\<open>HEART\<close> is the heart character.) The value of the \<^verbatim>\<open>ppOverride\<close> input is an
  argument; it is a string, never \<^verbatim>\<open>null\<close>. In \<^verbatim>\<open>updateScorecard\<close>,
  \<^verbatim>\<open>isLoved = beatmap.status === 'loved'\<close>.
\<close>

definition getPpDisplay :: "(jsnum \<Rightarrow> string) \<Rightarrow> string \<Rightarrow> scoreData \<Rightarrow> bool \<Rightarrow> string" where
  "getPpDisplay toLocaleString ppOverride sd isLoved =
     (if isLoved then
        (if ppOverride = '''' then heart
         else formatScore toLocaleString (Math_round (parseFloat ppOverride)) @ ''pp '' @ heart)
      else formatScore toLocaleString (Math_round (pp sd)) @ ''pp'')"

definition isLoved :: "beatmap \<Rightarrow> bool" where
  "isLoved b \<longleftrightarrow> status b = ''loved''"

section \<open>Sample inputs\<close>

text \<open>Concrete inputs on which the functions are run below: no override filled in, a
  score set in the modern client whose classic total is missing (the server sends 0 for
  it), and a map.\<close>

abbreviation noOverrides :: overrides where
  "noOverrides \<equiv>
     \<lparr>ov_score = '''', ov_count300 = '''', ov_count100 = '''', ov_count50 = '''',
      ov_countMiss = '''', ov_countSliderEnds = '''', ov_combo = '''', ov_accuracy = '''',
      ov_pp = '''', ov_rank = '''', ov_mods = '''', ov_leaderboard = ''''\<rparr>"

abbreviation sampleBeatmap :: beatmap where
  "sampleBeatmap \<equiv>
     \<lparr>title = ''Blue Zenith'', difficulty = ''FOUR DIMENSIONS'', star_rating = 52 / 10,
      status = ''ranked''\<rparr>"

abbreviation sampleScore :: score_response where
  "sampleScore \<equiv>
     \<lparr>lazer = True,
      data_score =
        \<lparr>up_score = Num 1000000, up_classic_score = Num 0,
         up_mods = [\<lparr>acronym = ''HD''\<rparr>],
         up_c300 = Num 500, up_c100 = Num 10, up_c50 = Num 0, up_cEnds = Num 90,
         up_cSliders = Num 100, up_misses = Num 1, up_rank = ''S'',
         up_accuracy = Num (97 / 100), up_full_combo = False, up_max_combo = Num 800,
         up_pp = Num (4321 / 10), up_leaderboard = Num 7\<rparr>,
      score_beatmap = sampleBeatmap\<rparr>"

abbreviation sampleMap :: map_response where
  "sampleMap \<equiv> \<lparr>map_beatmap = sampleBeatmap\<rparr>"

text \<open>A score detected as classic, with both totals, and a loved map.\<close>

abbreviation classicScore :: score_response where
  "classicScore \<equiv>
     \<lparr>lazer = False,
      data_score =
        \<lparr>up_score = Num 1000000, up_classic_score = Num 987654,
         up_mods = [\<lparr>acronym = ''HD''\<rparr>],
         up_c300 = Num 500, up_c100 = Num 10, up_c50 = Num 0, up_cEnds = Num 90,
         up_cSliders = Num 100, up_misses = Num 1, up_rank = ''S'',
         up_accuracy = Num (97 / 100), up_full_combo = False, up_max_combo = Num 800,
         up_pp = Num (4321 / 10), up_leaderboard = Num 7\<rparr>,
      score_beatmap = sampleBeatmap\<rparr>"

abbreviation lovedBeatmap :: beatmap where
  "lovedBeatmap \<equiv>
     \<lparr>title = ''Blue Zenith'', difficulty = ''FOUR DIMENSIONS'', star_rating = 52 / 10,
      status = ''loved''\<rparr>"

text \<open>
  A sample text measure: every character is 36 wide, and three dots at the end of a text
  are drawn as one narrow glyph, 88 narrower than three single dots.
\<close>

definition ligatureWidth :: "string \<Rightarrow> int" where
  "ligatureWidth s =
     36 * int (length s) - (if drop (length s - 3) s = ''...'' then 88 else 0)"

section \<open>Properties\<close>

subsection \<open>Truncation of the difficulty name\<close>

lemma truncateText_short: "int (length text) \<le> m \<Longrightarrow> truncateText text m = text"
  by (simp add: truncateText_def)

lemma truncateText_long:
  "m < int (length text) \<Longrightarrow> truncateText text m = take (nat (m - 2)) text @ ''..''"
  by (simp add: truncateText_def substring0_def)

lemma truncateText_length: "2 \<le> m \<Longrightarrow> int (length (truncateText text m)) \<le> m"
  by (auto simp: truncateText_def substring0_def)

text \<open>
  C10. For every text and every \<open>maxLength \<ge> 2\<close>, \<^const>\<open>truncateText\<close> returns the text
  unchanged when it has at most \<open>maxLength\<close> characters and otherwise its first
  \<open>maxLength - 2\<close> characters followed by two dots; the result never has more than
  \<open>maxLength\<close> characters, and truncating a second time changes nothing.
\<close>

theorem truncateText_spec:
  assumes "2 \<le> maxLength"
  shows "truncateText text maxLength =
           (if int (length text) \<le> maxLength then text
            else take (nat (maxLength - 2)) text @ ''..'')
         \<and> int (length (truncateText text maxLength)) \<le> maxLength
         \<and> truncateText (truncateText text maxLength) maxLength = truncateText text maxLength"
proof -
  have eq: "truncateText text maxLength =
           (if int (length text) \<le> maxLength then text
            else take (nat (maxLength - 2)) text @ ''..'')"
    by (simp add: truncateText_short truncateText_long)
  have len: "int (length (truncateText text maxLength)) \<le> maxLength"
    using assms by (rule truncateText_length)
  have "truncateText (truncateText text maxLength) maxLength = truncateText text maxLength"
    using len by (rule truncateText_short)
  with eq len show ?thesis by blast
qed

theorem truncateText_spec_witness:
  "(2::int) \<le> 32
   \<and> truncateText ''Insane'' 32 = ''Insane''
   \<and> truncateText ''abcdefghijklmnopqrstuvwxyz0123456789'' 32 = ''abcdefghijklmnopqrstuvwxyz0123..''
   \<and> int (length (truncateText ''abcdefghijklmnopqrstuvwxyz0123456789'' 32)) \<le> 32
   \<and> truncateText (truncateText ''abcdefghijklmnopqrstuvwxyz0123456789'' 32) 32
       = truncateText ''abcdefghijklmnopqrstuvwxyz0123456789'' 32"
proof -
  have h: "(2::int) \<le> 32" by simp
  note short = truncateText_spec [OF h, of "''Insane''"]
  note long = truncateText_spec [OF h, of "''abcdefghijklmnopqrstuvwxyz0123456789''"]
  have a: "truncateText ''Insane'' 32 = ''Insane''"
    using short by simp
  have b: "truncateText ''abcdefghijklmnopqrstuvwxyz0123456789'' 32
             = ''abcdefghijklmnopqrstuvwxyz0123..''"
    using conjunct1 [OF long] by simp
  from h a b conjunct2 [OF long] show ?thesis
    by (intro conjI) (rule h a b, rule h a b, rule h a b, blast, blast)
qed

subsection \<open>Width left for the title\<close>

text \<open>
  C7. For every number \<open>n\<close> of mod icons, the width available to the title is the container
  width 800 minus the padding 40 minus 70 per icon minus a spacing of 20 when there is at
  least one icon, and never less than 200.
\<close>

theorem calculateTitleSpace_spec:
  "calculateTitleSpace n = max 200 (800 - 40 - int n * 70 - (if n > 0 then 20 else 0))"
  by (simp add: calculateTitleSpace_def Let_def)

theorem calculateTitleSpace_spec_witness:
  "calculateTitleSpace 0 = 760 \<and> calculateTitleSpace 3 = 530 \<and> calculateTitleSpace 7 = 250
   \<and> calculateTitleSpace 8 = 200 \<and> calculateTitleSpace 20 = 200"
  using calculateTitleSpace_spec [of 0] calculateTitleSpace_spec [of 3]
    calculateTitleSpace_spec [of 7] calculateTitleSpace_spec [of 8]
    calculateTitleSpace_spec [of 20]
  by simp

subsection \<open>Mods override parsing\<close>

lemma js_split_from_nonempty: "js_split_from sep acc s \<noteq> []"
  by (induction sep acc s rule: js_split_from.induct) auto

lemma js_join_Cons: "xs \<noteq> [] \<Longrightarrow> js_join sep (x # xs) = x @ sep @ js_join sep xs"
  by (cases xs) auto

lemma js_join_split_from: "js_join sep (js_split_from sep acc s) = rev acc @ s"
proof (induction sep acc s rule: js_split_from.induct)
  case (1 sep acc)
  then show ?case by simp
next
  case (2 sep acc c cs)
  show ?case
  proof (cases "sep \<noteq> [] \<and> take (length sep) (c # cs) = sep")
    case True
    have "js_split_from sep acc (c # cs)
            = rev acc # js_split_from sep [] (drop (length sep) (c # cs))"
      by (subst js_split_from.simps(2), subst if_P [OF True], rule refl)
    then have "js_join sep (js_split_from sep acc (c # cs))
               = rev acc @ sep @ drop (length sep) (c # cs)"
      using 2(1) [OF True]
      by (simp only: js_join_Cons [OF js_split_from_nonempty] rev.simps append_Nil)
    also have "sep @ drop (length sep) (c # cs) = c # cs"
      using True by (metis append_take_drop_id)
    finally show ?thesis .
  next
    case False
    have "js_split_from sep acc (c # cs) = js_split_from sep (c # acc) cs"
      by (subst js_split_from.simps(2), subst if_not_P [OF False], rule refl)
    then show ?thesis using 2(2) [OF False] by simp
  qed
qed

lemma js_split_from_no_sep:
  "c \<notin> set acc \<Longrightarrow> t \<in> set (js_split_from [c] acc s) \<Longrightarrow> c \<notin> set t"
proof (induction "[c]" acc s rule: js_split_from.induct)
  case (1 acc)
  then show ?case by simp
next
  case (2 acc d ds)
  then show ?case by (auto split: if_splits)
qed

lemma js_split_from_none:
  "c \<notin> set s \<Longrightarrow> js_split_from [c] acc s = [rev acc @ s]"
  by (induction s arbitrary: acc) auto

lemma trim_empty_iff: "trim s = [] \<longleftrightarrow> (\<forall>c\<in>set s. isWhiteSpace c)"
proof -
  have "trim s = [] \<longleftrightarrow> dropWhile isWhiteSpace (rev (dropWhile isWhiteSpace s)) = []"
    by (simp add: trim_def)
  also have "\<dots> \<longleftrightarrow> (\<forall>c\<in>set (dropWhile isWhiteSpace s). isWhiteSpace c)"
    by (simp only: dropWhile_eq_Nil_conv set_rev)
  also have "\<dots> \<longleftrightarrow> dropWhile isWhiteSpace s = []"
    using hd_dropWhile [of isWhiteSpace s]
    by (cases "dropWhile isWhiteSpace s") (auto dest: set_dropWhileD)
  also have "\<dots> \<longleftrightarrow> (\<forall>c\<in>set s. isWhiteSpace c)"
    by (simp only: dropWhile_eq_Nil_conv)
  finally show ?thesis .
qed

lemma comma_not_white: "\<not> isWhiteSpace (CHR '','')"
  by (simp add: isWhiteSpace_def)

lemma not_isTwoLetters_Nil: "\<not> isTwoLetters []"
  by (simp add: isTwoLetters_def)

text \<open>
  The early return of \<^const>\<open>parseModsString\<close> for an empty or blank string agrees with
  what the split, trim and filter steps would give.
\<close>

lemma parseModsString_pipeline:
  "parseModsString s =
     map (\<lambda>code. \<lparr>acronym = code\<rparr>)
       (filter isTwoLetters (map (\<lambda>m. toUpperCase (trim m)) (js_split '','' s)))"
proof (cases "s = [] \<or> trim s = []")
  case True
  then have white: "\<forall>c\<in>set s. isWhiteSpace c"
    by (auto simp: trim_empty_iff)
  then have "CHR '','' \<notin> set s"
    using comma_not_white by blast
  then have "js_split '','' s = [s]"
    by (simp add: js_split_def js_split_from_none)
  moreover have "trim s = []"
    using white by (simp add: trim_empty_iff)
  ultimately show ?thesis
    using True by (simp add: parseModsString_def toUpperCase_def not_isTwoLetters_Nil)
next
  case False
  then show ?thesis by (simp add: parseModsString_def Let_def)
qed

lemma parseModsString_valid:
  "m \<in> set (parseModsString s) \<Longrightarrow> isTwoLetters (acronym m)"
  by (auto simp: parseModsString_pipeline)

lemma isTwoLetters_iff: "isTwoLetters s \<longleftrightarrow> length s = 2 \<and> list_all isUpperAZ s"
  by (simp add: isTwoLetters_def)

text \<open>
  C6. For every input string the mods parser returns a list (it has no failing branch):
  the string is split at its commas (joining the pieces with commas gives the string back,
  and no piece holds a comma), each piece is trimmed and put in upper case, and exactly the
  pieces that are then two letters \<open>A\<close> to \<open>Z\<close> are kept, in order, each as an acronym.
  The input \<^verbatim>\<open>"HD, dt ,xx1"\<close> gives the mods \<open>HD\<close> and \<open>DT\<close>.
\<close>

theorem parseModsString_spec:
  "parseModsString s =
     map (\<lambda>code. \<lparr>acronym = code\<rparr>)
       (filter isTwoLetters (map (\<lambda>m. toUpperCase (trim m)) (js_split '','' s)))
   \<and> js_join '','' (js_split '','' s) = s
   \<and> (\<forall>t\<in>set (js_split '','' s). CHR '','' \<notin> set t)
   \<and> (\<forall>m\<in>set (parseModsString s). length (acronym m) = 2 \<and> list_all isUpperAZ (acronym m))
   \<and> parseModsString ''HD, dt ,xx1'' = [\<lparr>acronym = ''HD''\<rparr>, \<lparr>acronym = ''DT''\<rparr>]"
proof (intro conjI)
  show "parseModsString s =
     map (\<lambda>code. \<lparr>acronym = code\<rparr>)
       (filter isTwoLetters (map (\<lambda>m. toUpperCase (trim m)) (js_split '','' s)))"
    by (rule parseModsString_pipeline)
  show "js_join '','' (js_split '','' s) = s"
    by (simp add: js_split_def js_join_split_from)
  show "\<forall>t\<in>set (js_split '','' s). CHR '','' \<notin> set t"
    using js_split_from_no_sep [of "CHR '',''" "[]" _ s] by (simp add: js_split_def)
  show "\<forall>m\<in>set (parseModsString s). length (acronym m) = 2 \<and> list_all isUpperAZ (acronym m)"
    using parseModsString_valid [of _ s] by (simp add: isTwoLetters_iff)
  show "parseModsString ''HD, dt ,xx1'' = [\<lparr>acronym = ''HD''\<rparr>, \<lparr>acronym = ''DT''\<rparr>]"
    by code_simp
qed

theorem parseModsString_spec_witness:
  "parseModsString ''nf, ,1a, ezz ,Fl,h d'' = [\<lparr>acronym = ''NF''\<rparr>, \<lparr>acronym = ''FL''\<rparr>]
   \<and> js_split '','' ''nf, ,1a, ezz ,Fl,h d'' = [''nf'', '' '', ''1a'', '' ezz '', ''Fl'', ''h d'']
   \<and> list_all (\<lambda>m. length (acronym m) = 2 \<and> list_all isUpperAZ (acronym m))
         (parseModsString ''nf, ,1a, ezz ,Fl,h d'')
   \<and> list_all (\<lambda>t. CHR '','' \<notin> set t) (js_split '','' ''nf, ,1a, ezz ,Fl,h d'')
   \<and> parseModsString '' '' = [] \<and> parseModsString [] = []"
proof -
  note t = parseModsString_spec [of "''nf, ,1a, ezz ,Fl,h d''"]
  have sp: "js_split '','' ''nf, ,1a, ezz ,Fl,h d''
              = [''nf'', '' '', ''1a'', '' ezz '', ''Fl'', ''h d'']"
    by code_simp
  have "parseModsString ''nf, ,1a, ezz ,Fl,h d''
          = map (\<lambda>code. \<lparr>acronym = code\<rparr>)
              (filter isTwoLetters (map (\<lambda>m. toUpperCase (trim m))
                 [''nf'', '' '', ''1a'', '' ezz '', ''Fl'', ''h d'']))"
    using conjunct1 [OF t] by (simp only: sp)
  also have "\<dots> = [\<lparr>acronym = ''NF''\<rparr>, \<lparr>acronym = ''FL''\<rparr>]"
    by code_simp
  finally have a: "parseModsString ''nf, ,1a, ezz ,Fl,h d''
                     = [\<lparr>acronym = ''NF''\<rparr>, \<lparr>acronym = ''FL''\<rparr>]" .
  have b: "list_all (\<lambda>m. length (acronym m) = 2 \<and> list_all isUpperAZ (acronym m))
             (parseModsString ''nf, ,1a, ezz ,Fl,h d'')"
    using t by (auto simp: list_all_iff)
  have b': "list_all (\<lambda>t. CHR '','' \<notin> set t) (js_split '','' ''nf, ,1a, ezz ,Fl,h d'')"
    using t by (auto simp: list_all_iff)
  have c: "parseModsString '' '' = []"
    using conjunct1 [OF parseModsString_spec [of "'' ''"]] by code_simp
  have d: "parseModsString [] = []"
    using conjunct1 [OF parseModsString_spec [of "[]"]] by code_simp
  from a sp b b' c d show ?thesis by blast
qed

subsection \<open>Gradient colour\<close>

lemma length_toString16: "length (padStart2 (toString16 b)) = 2"
  by (simp add: padStart2_def toString16_def)

lemma map_of_colourMap:
  "map_of colourMap i = Some c \<Longrightarrow> length c = 7 \<and> hd c = CHR ''#''"
  by (auto simp: colourMap_def split: if_splits)

lemma getGradientColour_total:
  "length (getGradientColour cv ctx x) = 7 \<and> hd (getGradientColour cv ctx x) = CHR ''#''"
  by (auto simp: getGradientColour_def Let_def length_toString16
      dest: map_of_colourMap split: option.splits prod.splits)

lemma ramp_low: "x < 0 \<Longrightarrow>
  getGradientColour (Some cv) (Some ctx) x = getGradientColour (Some cv) (Some ctx) 0"
  by (simp add: getGradientColour_def Let_def max_def min_def)

lemma ramp_high: "10 < x \<Longrightarrow>
  getGradientColour (Some cv) (Some ctx) x = getGradientColour (Some cv) (Some ctx) 10"
  by (simp add: getGradientColour_def Let_def max_def min_def)

lemma fallback_lookup: "cv = None \<or> ctx = None \<Longrightarrow>
  getGradientColour cv ctx x =
    (case map_of colourMap (min \<lfloor>x\<rfloor> 10) of Some c \<Rightarrow> c | None \<Rightarrow> ''#ff6b6b'')"
  by (auto simp: getGradientColour_def Let_def split: option.splits)

lemma fallback_high:
  assumes "cv = None \<or> ctx = None" and "10 < x"
  shows "getGradientColour cv ctx x = ''#000000''"
proof -
  from assms(2) have "10 \<le> \<lfloor>x\<rfloor>" by (simp add: le_floor_iff)
  then have "min \<lfloor>x\<rfloor> 10 = 10" by simp
  then show ?thesis using assms(1) by (simp add: fallback_lookup colourMap_def)
qed

lemma fallback_ten:
  "cv = None \<or> ctx = None \<Longrightarrow> getGradientColour cv ctx 10 = ''#000000''"
  by (simp add: fallback_lookup colourMap_def)

lemma fallback_zero:
  "cv = None \<or> ctx = None \<Longrightarrow> getGradientColour cv ctx 0 = ''#666666''"
  by (simp add: fallback_lookup colourMap_def)

lemma fallback_low:
  assumes "cv = None \<or> ctx = None" and "x < 0"
  shows "getGradientColour cv ctx x = ''#ff6b6b''"
proof -
  from assms(2) have "\<lfloor>x\<rfloor> < 0" by (simp add: floor_less_iff)
  then have "min \<lfloor>x\<rfloor> 10 < 0" by simp
  then have "map_of colourMap (min \<lfloor>x\<rfloor> 10) = None"
    by (auto simp: colourMap_def)
  then show ?thesis using assms(1) by (simp add: fallback_lookup)
qed

text \<open>
  C3, as the claim states it, fails: without the gradient image a negative star rating
  misses the colour table and gets the sentinel colour, not the colour of 0.
\<close>

theorem getGradientColour_negative_counterexample:
  "getGradientColour None None (-1) \<noteq> getGradientColour None None 0"
proof -
  have "getGradientColour None None (-1) = ''#ff6b6b''"
    by (rule fallback_low) simp_all
  moreover have "getGradientColour None None 0 = ''#666666''"
    by (rule fallback_zero) simp
  ultimately show ?thesis by simp
qed

text \<open>
  C3, amended. The gradient colour lookup returns a colour (a \<open>#\<close> and six more
  characters) for every star rating, with the gradient image and without it. With the
  image, a rating below 0 gets the colour of 0 and a rating above 10 the colour of 10.
  Without it, a rating above 10 gets the colour of 10 and a rating below 0 the sentinel
  colour \<^verbatim>\<open>#ff6b6b\<close>.
\<close>

theorem getGradientColour_spec:
  "length (getGradientColour cv ctx x) = 7 \<and> hd (getGradientColour cv ctx x) = CHR ''#''
   \<and> (x < 0 \<longrightarrow> getGradientColour (Some c) (Some g) x = getGradientColour (Some c) (Some g) 0)
   \<and> (10 < x \<longrightarrow> getGradientColour (Some c) (Some g) x = getGradientColour (Some c) (Some g) 10)
   \<and> ((cv = None \<or> ctx = None) \<and> 10 < x \<longrightarrow>
         getGradientColour cv ctx x = getGradientColour cv ctx 10)
   \<and> ((cv = None \<or> ctx = None) \<and> x < 0 \<longrightarrow> getGradientColour cv ctx x = ''#ff6b6b'')"
proof (intro conjI impI)
  show "length (getGradientColour cv ctx x) = 7" and "hd (getGradientColour cv ctx x) = CHR ''#''"
    using getGradientColour_total [of cv ctx x] by simp_all
  show "getGradientColour (Some c) (Some g) x = getGradientColour (Some c) (Some g) 0"
    if "x < 0" using that by (rule ramp_low)
  show "getGradientColour (Some c) (Some g) x = getGradientColour (Some c) (Some g) 10"
    if "10 < x" using that by (rule ramp_high)
  show "getGradientColour cv ctx x = getGradientColour cv ctx 10"
    if "(cv = None \<or> ctx = None) \<and> 10 < x"
    using that fallback_high [of cv ctx x] fallback_ten [of cv ctx] by simp
  show "getGradientColour cv ctx x = ''#ff6b6b''"
    if "(cv = None \<or> ctx = None) \<and> x < 0"
    using that fallback_low [of cv ctx x] by simp
qed

theorem getGradientColour_spec_witness:
  "getGradientColour (Some \<lparr>width = 101, height = 2\<rparr>)
       (Some \<lparr>getImageData = (\<lambda>x y. Some (word_of_int x, 10, 255))\<rparr>) (-3)
     = getGradientColour (Some \<lparr>width = 101, height = 2\<rparr>)
       (Some \<lparr>getImageData = (\<lambda>x y. Some (word_of_int x, 10, 255))\<rparr>) 0
   \<and> getGradientColour (Some \<lparr>width = 101, height = 2\<rparr>)
       (Some \<lparr>getImageData = (\<lambda>x y. Some (word_of_int x, 10, 255))\<rparr>) 12
     = getGradientColour (Some \<lparr>width = 101, height = 2\<rparr>)
       (Some \<lparr>getImageData = (\<lambda>x y. Some (word_of_int x, 10, 255))\<rparr>) 10
   \<and> getGradientColour None None 12 = getGradientColour None None 10
   \<and> getGradientColour None None (-3) = ''#ff6b6b''
   \<and> length (getGradientColour None None (-3)) = 7"
proof -
  let ?cv = "Some \<lparr>width = 101, height = 2\<rparr>"
  let ?ctx = "Some \<lparr>getImageData = (\<lambda>x y. Some (word_of_int x, 10, 255))\<rparr>"
  have lo: "(-3::rat) < 0" and hi: "(10::rat) < 12" by simp_all
  have none: "(None :: canvas option) = None \<or> (None :: context2d option) = None" by simp
  note low = getGradientColour_spec
    [of None None "-3" "\<lparr>width = 101, height = 2\<rparr>"
      "\<lparr>getImageData = (\<lambda>x y. Some (word_of_int x, 10, 255))\<rparr>"]
  note high = getGradientColour_spec
    [of None None 12 "\<lparr>width = 101, height = 2\<rparr>"
      "\<lparr>getImageData = (\<lambda>x y. Some (word_of_int x, 10, 255))\<rparr>"]
  have a: "getGradientColour ?cv ?ctx (-3) = getGradientColour ?cv ?ctx 0"
    using low lo by blast
  have b: "getGradientColour ?cv ?ctx 12 = getGradientColour ?cv ?ctx 10"
    using high hi by blast
  have c: "getGradientColour None None 12 = getGradientColour None None 10"
    using high hi none by blast
  have d: "getGradientColour None None (-3) = ''#ff6b6b''"
    using low lo none by blast
  have e: "length (getGradientColour None None (-3)) = 7"
    using low by blast
  from a b c d e show ?thesis by blast
qed

subsection \<open>Scorecard height\<close>

lemma js_split_br_Nil: "js_split ''<br>'' [] = [[]]"
  by (simp add: js_split_def)

text \<open>
  C4, as the claim states it, fails: with a full-combo banner whose content is 110 high
  in a box of 100 the height is 630, not 600 + (110 - 100).
\<close>

theorem calculateRequiredHeight_overflow_counterexample:
  "calculateRequiredHeight [] True (Some \<lparr>scrollHeight = 110, clientHeight = 100\<rparr>)
     \<noteq> 600 + 30 * max 0 (int (length (js_split ''<br>'' [])) - 2) + max 0 (110 - 100)"
  by (simp add: calculateRequiredHeight_def js_split_br_Nil)

text \<open>
  C4, amended. For every auxiliary text and full-combo state, the required height is the
  base height 600 plus 30 per auxiliary-text line beyond the first two, plus, when the
  full-combo banner is shown and the right section's content height exceeds its container
  height, the difference of the two heights plus 20.
\<close>

theorem calculateRequiredHeight_spec:
  "calculateRequiredHeight extraText hasFullCombo rightSection =
     600 + 30 * max 0 (int (length (js_split ''<br>'' extraText)) - 2)
     + (case rightSection of
          None \<Rightarrow> 0
        | Some rs \<Rightarrow>
            if hasFullCombo \<and> scrollHeight rs > clientHeight rs
            then scrollHeight rs - clientHeight rs + 20 else 0)"
  by (cases "extraText = []")
     (auto simp: calculateRequiredHeight_def Let_def js_split_br_Nil max_def
       split: option.splits)

theorem calculateRequiredHeight_spec_witness:
  "calculateRequiredHeight ''a<br>b<br>c<br>d'' True
       (Some \<lparr>scrollHeight = 110, clientHeight = 100\<rparr>) = 690
   \<and> calculateRequiredHeight ''a<br>b<br>c<br>d'' False
       (Some \<lparr>scrollHeight = 110, clientHeight = 100\<rparr>) = 660
   \<and> calculateRequiredHeight ''a<br>b'' True None = 600"
proof -
  have l4: "js_split ''<br>'' ''a<br>b<br>c<br>d'' = [''a'', ''b'', ''c'', ''d'']"
    by code_simp
  have l2: "js_split ''<br>'' ''a<br>b'' = [''a'', ''b'']"
    by code_simp
  show ?thesis
    using calculateRequiredHeight_spec
        [of "''a<br>b<br>c<br>d''" True "Some \<lparr>scrollHeight = 110, clientHeight = 100\<rparr>"]
      calculateRequiredHeight_spec
        [of "''a<br>b<br>c<br>d''" False "Some \<lparr>scrollHeight = 110, clientHeight = 100\<rparr>"]
      calculateRequiredHeight_spec [of "''a<br>b''" True None]
    by (simp add: l4 l2)
qed

subsection \<open>Field resolution\<close>

lemma parseInt_abc: "parseInt ''abc'' = NaN"
  by code_simp

lemma parseInt_5: "parseInt ''5'' = Num 5"
  by code_simp

lemma parseFloat_98_5: "div100 (parseFloat ''98.5'') = Num (197 / 200)"
  by code_simp

lemma parseInt_1e3: "parseInt ''1e3'' = Num 1"
  by code_simp

text \<open>
  C1, as the claim states it, fails: an override that is filled in but does not parse
  (\<^verbatim>\<open>abc\<close> for the score) is not replaced by the upstream value 1000000; the resolved
  field is \<open>NaN\<close>. And an override that is a number but not a plain integer
  (\<^verbatim>\<open>1e3\<close>) resolves to 1, neither its value 1000 nor the upstream value.
\<close>

theorem extractScoreData_unparseable_counterexample:
  "parseInt ''abc'' = NaN
   \<and> map_option score (extractScoreData (noOverrides\<lparr>ov_score := ''abc''\<rparr>) (Some sampleScore) None)
       = Some NaN
   \<and> map_option score (extractScoreData (noOverrides\<lparr>ov_score := ''abc''\<rparr>) (Some sampleScore) None)
       \<noteq> Some (up_score (data_score sampleScore))
   \<and> map_option score (extractScoreData (noOverrides\<lparr>ov_score := ''1e3''\<rparr>) (Some sampleScore) None)
       = Some (Num 1)"
  by (simp add: extractScoreData_def parseInt_abc parseInt_1e3)

text \<open>
  C1, amended. For every set of overrides, each field of the resolved score comes from
  one source only. With a score loaded, a field whose override is filled in (not the empty
  string) is the override as parsed: \<open>parseInt\<close> of it for the score and the counts,
  \<open>parseFloat\<close> of it for the performance points and, divided by 100, for the accuracy
  (the number the text starts with, \<open>NaN\<close> when it starts with none), the text itself
  for the rank;
  a field whose override is empty is the upstream value (for the score, the modern total
  of a modern score and the classic total otherwise). With only a map loaded the empty
  override gives the default: 0 for the numbers, \<open>F\<close> for the rank, no mods, and no full
  combo. With neither loaded there is no record.
\<close>

theorem extractScoreData_spec:
  "(\<exists>sd. extractScoreData ov (Some data) cm = Some sd
      \<and> score sd = (if ov_score ov \<noteq> [] then parseInt (ov_score ov)
                    else if lazer data then up_score (data_score data)
                    else up_classic_score (data_score data))
      \<and> c300 sd = (if ov_count300 ov \<noteq> [] then parseInt (ov_count300 ov)
                   else up_c300 (data_score data))
      \<and> c100 sd = (if ov_count100 ov \<noteq> [] then parseInt (ov_count100 ov)
                   else up_c100 (data_score data))
      \<and> c50 sd = (if ov_count50 ov \<noteq> [] then parseInt (ov_count50 ov)
                  else up_c50 (data_score data))
      \<and> misses sd = (if ov_countMiss ov \<noteq> [] then parseInt (ov_countMiss ov)
                     else up_misses (data_score data))
      \<and> cEnds sd = (if ov_countSliderEnds ov \<noteq> [] then parseInt (ov_countSliderEnds ov)
                    else up_cEnds (data_score data))
      \<and> max_combo sd = (if ov_combo ov \<noteq> [] then parseInt (ov_combo ov)
                        else up_max_combo (data_score data))
      \<and> accuracy sd = (if ov_accuracy ov \<noteq> [] then div100 (parseFloat (ov_accuracy ov))
                       else up_accuracy (data_score data))
      \<and> pp sd = (if ov_pp ov \<noteq> [] then parseFloat (ov_pp ov) else up_pp (data_score data))
      \<and> rank sd = (if ov_rank ov \<noteq> [] then ov_rank ov else up_rank (data_score data))
      \<and> leaderboard sd = (if ov_leaderboard ov \<noteq> [] then parseInt (ov_leaderboard ov)
                          else up_leaderboard (data_score data))
      \<and> mods sd = (if ov_mods ov \<noteq> [] then parseModsString (ov_mods ov)
                   else up_mods (data_score data))
      \<and> full_combo sd = up_full_combo (data_score data))
   \<and> (\<exists>sd. extractScoreData ov None (Some m) = Some sd
      \<and> score sd = (if ov_score ov \<noteq> [] then parseInt (ov_score ov) else Num 0)
      \<and> c300 sd = (if ov_count300 ov \<noteq> [] then parseInt (ov_count300 ov) else Num 0)
      \<and> c100 sd = (if ov_count100 ov \<noteq> [] then parseInt (ov_count100 ov) else Num 0)
      \<and> c50 sd = (if ov_count50 ov \<noteq> [] then parseInt (ov_count50 ov) else Num 0)
      \<and> misses sd = (if ov_countMiss ov \<noteq> [] then parseInt (ov_countMiss ov) else Num 0)
      \<and> cEnds sd = (if ov_countSliderEnds ov \<noteq> [] then parseInt (ov_countSliderEnds ov)
                    else Num 0)
      \<and> max_combo sd = (if ov_combo ov \<noteq> [] then parseInt (ov_combo ov) else Num 0)
      \<and> accuracy sd = (if ov_accuracy ov \<noteq> [] then div100 (parseFloat (ov_accuracy ov))
                       else Num 0)
      \<and> pp sd = (if ov_pp ov \<noteq> [] then parseFloat (ov_pp ov) else Num 0)
      \<and> rank sd = (if ov_rank ov \<noteq> [] then ov_rank ov else ''F'')
      \<and> leaderboard sd = (if ov_leaderboard ov \<noteq> [] then parseInt (ov_leaderboard ov)
                          else Num 0)
      \<and> mods sd = (if ov_mods ov \<noteq> [] then parseModsString (ov_mods ov) else [])
      \<and> full_combo sd = False)
   \<and> extractScoreData ov None None = None"
  by (simp add: extractScoreData_def)

theorem extractScoreData_spec_witness:
  "map_option c300
       (extractScoreData (noOverrides\<lparr>ov_count300 := ''5'', ov_accuracy := ''98.5''\<rparr>)
          (Some sampleScore) None) = Some (Num 5)
   \<and> map_option accuracy
       (extractScoreData (noOverrides\<lparr>ov_count300 := ''5'', ov_accuracy := ''98.5''\<rparr>)
          (Some sampleScore) None) = Some (Num (197 / 200))
   \<and> map_option c100
       (extractScoreData (noOverrides\<lparr>ov_count300 := ''5'', ov_accuracy := ''98.5''\<rparr>)
          (Some sampleScore) None) = Some (Num 10)
   \<and> map_option rank
       (extractScoreData (noOverrides\<lparr>ov_count300 := ''5'', ov_accuracy := ''98.5''\<rparr>)
          None (Some sampleMap)) = Some ''F''
   \<and> map_option c300
       (extractScoreData (noOverrides\<lparr>ov_count300 := ''5'', ov_accuracy := ''98.5''\<rparr>)
          None (Some sampleMap)) = Some (Num 5)"
proof -
  let ?ov = "noOverrides\<lparr>ov_count300 := ''5'', ov_accuracy := ''98.5''\<rparr>"
  note t = extractScoreData_spec [of ?ov sampleScore None sampleMap]
  from t obtain sd where sd: "extractScoreData ?ov (Some sampleScore) None = Some sd"
    and "c300 sd = parseInt ''5''" and "accuracy sd = div100 (parseFloat ''98.5'')"
    and "c100 sd = Num 10"
    by auto
  moreover from t obtain pd where pd: "extractScoreData ?ov None (Some sampleMap) = Some pd"
    and "rank pd = ''F''" and "c300 pd = parseInt ''5''"
    by auto
  ultimately show ?thesis
    by (simp only: option.map parseInt_5 parseFloat_98_5 simp_thms)
qed

subsection \<open>Map preview\<close>

text \<open>
  C9. With a map loaded and no score, for every set of overrides a record is produced in
  which every number whose override is empty is 0, the slider count is 100, the rank is
  \<open>F\<close> unless overridden, and the full-combo field is false.
\<close>

theorem extractScoreData_preview:
  "\<exists>sd. extractScoreData ov None (Some m) = Some sd
     \<and> (ov_score ov = [] \<longrightarrow> score sd = Num 0)
     \<and> (ov_count300 ov = [] \<longrightarrow> c300 sd = Num 0)
     \<and> (ov_count100 ov = [] \<longrightarrow> c100 sd = Num 0)
     \<and> (ov_count50 ov = [] \<longrightarrow> c50 sd = Num 0)
     \<and> (ov_countMiss ov = [] \<longrightarrow> misses sd = Num 0)
     \<and> (ov_countSliderEnds ov = [] \<longrightarrow> cEnds sd = Num 0)
     \<and> (ov_combo ov = [] \<longrightarrow> max_combo sd = Num 0)
     \<and> (ov_accuracy ov = [] \<longrightarrow> accuracy sd = Num 0)
     \<and> (ov_pp ov = [] \<longrightarrow> pp sd = Num 0)
     \<and> (ov_leaderboard ov = [] \<longrightarrow> leaderboard sd = Num 0)
     \<and> cSliders sd = Num 100
     \<and> (ov_rank ov = [] \<longrightarrow> rank sd = ''F'')
     \<and> full_combo sd = False"
  by (simp add: extractScoreData_def)

theorem extractScoreData_preview_witness:
  "map_option c100 (extractScoreData (noOverrides\<lparr>ov_count300 := ''5''\<rparr>) None (Some sampleMap))
     = Some (Num 0)
   \<and> map_option misses (extractScoreData (noOverrides\<lparr>ov_count300 := ''5''\<rparr>) None (Some sampleMap))
     = Some (Num 0)
   \<and> map_option cSliders (extractScoreData (noOverrides\<lparr>ov_count300 := ''5''\<rparr>) None (Some sampleMap))
     = Some (Num 100)
   \<and> map_option rank (extractScoreData (noOverrides\<lparr>ov_count300 := ''5''\<rparr>) None (Some sampleMap))
     = Some ''F''
   \<and> map_option full_combo
       (extractScoreData (noOverrides\<lparr>ov_count300 := ''5''\<rparr>) None (Some sampleMap))
     = Some False"
proof -
  let ?ov = "noOverrides\<lparr>ov_count300 := ''5''\<rparr>"
  from extractScoreData_preview [of ?ov sampleMap]
  obtain sd where "extractScoreData ?ov None (Some sampleMap) = Some sd"
    and "c100 sd = Num 0" and "misses sd = Num 0" and "cSliders sd = Num 100"
    and "rank sd = ''F''" and "full_combo sd = False"
    by auto
  then show ?thesis
    by (simp only: option.map simp_thms)
qed

subsection \<open>Displayed score\<close>

lemma displayedScore_modern: "displayedScore True sd = score sd"
  by (simp add: displayedScore_def)

lemma displayedScore_classic:
  "displayedScore False sd =
     (case classic_score sd of
        Some v \<Rightarrow> if v = Num 0 \<or> v = NaN then score sd else v
      | None \<Rightarrow> score sd)"
  by (auto simp: displayedScore_def truthy_def split: option.splits)

lemma displayedScore_one_of:
  "displayedScore isLazer sd = score sd \<or> classic_score sd = Some (displayedScore isLazer sd)"
  by (auto simp: displayedScore_def split: option.splits)

lemma extract_score_fields:
  assumes "extractScoreData ov (Some data) cm = Some sd"
  shows "score sd = (if ov_score ov \<noteq> [] then parseInt (ov_score ov)
                     else if lazer data then up_score (data_score data)
                     else up_classic_score (data_score data))"
    and "classic_score sd = Some (if ov_score ov \<noteq> [] then parseInt (ov_score ov)
                                  else up_classic_score (data_score data))"
proof -
  have "map_option score (extractScoreData ov (Some data) cm)
          = Some (if ov_score ov \<noteq> [] then parseInt (ov_score ov)
                  else if lazer data then up_score (data_score data)
                  else up_classic_score (data_score data))"
    by (simp add: extractScoreData_def)
  with assms show "score sd = (if ov_score ov \<noteq> [] then parseInt (ov_score ov)
                     else if lazer data then up_score (data_score data)
                     else up_classic_score (data_score data))"
    by simp
  have "map_option classic_score (extractScoreData ov (Some data) cm)
          = Some (Some (if ov_score ov \<noteq> [] then parseInt (ov_score ov)
                        else up_classic_score (data_score data)))"
    by (simp add: extractScoreData_def)
  with assms show "classic_score sd = Some (if ov_score ov \<noteq> [] then parseInt (ov_score ov)
                                  else up_classic_score (data_score data))"
    by simp
qed

lemma preview_score_fields:
  assumes "extractScoreData ov None (Some m) = Some sd"
  shows "score sd = (if ov_score ov \<noteq> [] then parseInt (ov_score ov) else Num 0)"
    and "classic_score sd = None"
proof -
  have "map_option score (extractScoreData ov None (Some m))
          = Some (if ov_score ov \<noteq> [] then parseInt (ov_score ov) else Num 0)"
    by (simp add: extractScoreData_def)
  with assms show "score sd = (if ov_score ov \<noteq> [] then parseInt (ov_score ov) else Num 0)"
    by simp
  have "map_option classic_score (extractScoreData ov None (Some m)) = Some None"
    by (simp add: extractScoreData_def)
  with assms show "classic_score sd = None"
    by simp
qed

lemma displayedScore_extract_modern:
  assumes "extractScoreData ov (Some data) cm = Some sd"
  shows "displayedScore True sd =
     (if ov_score ov \<noteq> [] then parseInt (ov_score ov)
      else if lazer data then up_score (data_score data)
      else up_classic_score (data_score data))"
  by (simp add: displayedScore_def extract_score_fields [OF assms])

lemma displayedScore_extract_classic:
  assumes "extractScoreData ov (Some data) cm = Some sd"
  shows "displayedScore False sd =
     (if ov_score ov \<noteq> [] then parseInt (ov_score ov)
      else if truthy (up_classic_score (data_score data))
        then up_classic_score (data_score data)
      else if lazer data then up_score (data_score data)
      else up_classic_score (data_score data))"
  by (simp add: displayedScore_def extract_score_fields [OF assms])

lemma displayedScore_preview:
  assumes "extractScoreData ov None (Some m) = Some sd"
  shows "displayedScore isLazer sd =
     (if ov_score ov \<noteq> [] then parseInt (ov_score ov) else Num 0)"
  by (simp add: displayedScore_def preview_score_fields [OF assms])

text \<open>
  C2, as the claim states it, fails, in each mode. In classic mode, for a score whose
  classic total is 0 and whose modern total is 1000000, the displayed score is 1000000.
  In modern mode, for a score detected as classic whose modern total is 1000000 and whose
  classic total is 987654, the displayed score is 987654: the \<open>score\<close> field of the
  record was already chosen by the detected mode.
\<close>

theorem displayedScore_counterexample:
  "map_option classic_score (extractScoreData noOverrides (Some sampleScore) None)
     = Some (Some (Num 0))
   \<and> map_option (displayedScore False) (extractScoreData noOverrides (Some sampleScore) None)
     = Some (Num 1000000)
   \<and> up_score (data_score classicScore) = Num 1000000
   \<and> map_option (displayedScore True) (extractScoreData noOverrides (Some classicScore) None)
     = Some (Num 987654)"
  by (simp add: extractScoreData_def displayedScore_def truthy_def)

text \<open>
  C2, amended. For every canonical score the displayed score is one of its two totals,
  never a sum or an average. In modern mode it is the \<open>score\<close> field of the record: the
  score override as parsed when one is filled in, else the upstream modern total of a
  score detected as modern and the upstream classic total of a score detected as classic.
  In classic mode it is the \<open>classic_score\<close> field (the override as parsed, else the
  upstream classic total) unless that is 0, \<open>NaN\<close> or missing, in which case it is the
  \<open>score\<close> field again. With only a map loaded it is, in both modes, the override as
  parsed or else 0.
\<close>

theorem displayedScore_spec:
  "displayedScore True sd = score sd
   \<and> displayedScore False sd =
       (case classic_score sd of
          Some v \<Rightarrow> if v = Num 0 \<or> v = NaN then score sd else v
        | None \<Rightarrow> score sd)
   \<and> (displayedScore isLazer sd = score sd
        \<or> classic_score sd = Some (displayedScore isLazer sd))
   \<and> scoreLine toLocaleString isLazer sd
        = ''Score: '' @ toLocaleString (displayedScore isLazer sd)
   \<and> (extractScoreData ov (Some data) cm = Some sd \<longrightarrow>
        displayedScore True sd =
          (if ov_score ov \<noteq> [] then parseInt (ov_score ov)
           else if lazer data then up_score (data_score data)
           else up_classic_score (data_score data))
        \<and> displayedScore False sd =
          (if ov_score ov \<noteq> [] then parseInt (ov_score ov)
           else if up_classic_score (data_score data) \<noteq> Num 0
                   \<and> up_classic_score (data_score data) \<noteq> NaN
             then up_classic_score (data_score data)
           else if lazer data then up_score (data_score data)
           else up_classic_score (data_score data)))
   \<and> (extractScoreData ov None (Some m) = Some sd \<longrightarrow>
        displayedScore isLazer sd =
          (if ov_score ov \<noteq> [] then parseInt (ov_score ov) else Num 0))"
proof (intro conjI impI)
  show "displayedScore True sd = score sd"
    by (rule displayedScore_modern)
  show "displayedScore False sd =
       (case classic_score sd of
          Some v \<Rightarrow> if v = Num 0 \<or> v = NaN then score sd else v
        | None \<Rightarrow> score sd)"
    by (rule displayedScore_classic)
  show "displayedScore isLazer sd = score sd
        \<or> classic_score sd = Some (displayedScore isLazer sd)"
    by (rule displayedScore_one_of)
  show "scoreLine toLocaleString isLazer sd
        = ''Score: '' @ toLocaleString (displayedScore isLazer sd)"
    by (simp add: scoreLine_def formatScore_def)
  show "displayedScore True sd =
          (if ov_score ov \<noteq> [] then parseInt (ov_score ov)
           else if lazer data then up_score (data_score data)
           else up_classic_score (data_score data))"
    if "extractScoreData ov (Some data) cm = Some sd"
    using that by (rule displayedScore_extract_modern)
  show "displayedScore False sd =
          (if ov_score ov \<noteq> [] then parseInt (ov_score ov)
           else if up_classic_score (data_score data) \<noteq> Num 0
                   \<and> up_classic_score (data_score data) \<noteq> NaN
             then up_classic_score (data_score data)
           else if lazer data then up_score (data_score data)
           else up_classic_score (data_score data))"
    if "extractScoreData ov (Some data) cm = Some sd"
    using displayedScore_extract_classic [OF that] by (simp add: truthy_def)
  show "displayedScore isLazer sd =
          (if ov_score ov \<noteq> [] then parseInt (ov_score ov) else Num 0)"
    if "extractScoreData ov None (Some m) = Some sd"
    using that by (rule displayedScore_preview)
qed

theorem displayedScore_spec_witness:
  "extractScoreData noOverrides
       (Some (sampleScore\<lparr>data_score := (data_score sampleScore)\<lparr>up_classic_score := Num 987654\<rparr>\<rparr>))
       None
     = Some \<lparr>score = Num 1000000, classic_score = Some (Num 987654), c300 = Num 500,
             c100 = Num 10, c50 = Num 0, misses = Num 1, cEnds = Num 90, max_combo = Num 800,
             accuracy = Num (97 / 100), pp = Num (4321 / 10), rank = ''S'',
             mods = [\<lparr>acronym = ''HD''\<rparr>], leaderboard = Num 7, full_combo = False,
             cSliders = Num 100\<rparr>
   \<and> displayedScore False
       \<lparr>score = Num 1000000, classic_score = Some (Num 987654), c300 = Num 500,
        c100 = Num 10, c50 = Num 0, misses = Num 1, cEnds = Num 90, max_combo = Num 800,
        accuracy = Num (97 / 100), pp = Num (4321 / 10), rank = ''S'',
        mods = [\<lparr>acronym = ''HD''\<rparr>], leaderboard = Num 7, full_combo = False,
        cSliders = Num 100\<rparr> = Num 987654
   \<and> displayedScore True
       \<lparr>score = Num 1000000, classic_score = Some (Num 987654), c300 = Num 500,
        c100 = Num 10, c50 = Num 0, misses = Num 1, cEnds = Num 90, max_combo = Num 800,
        accuracy = Num (97 / 100), pp = Num (4321 / 10), rank = ''S'',
        mods = [\<lparr>acronym = ''HD''\<rparr>], leaderboard = Num 7, full_combo = False,
        cSliders = Num 100\<rparr> = Num 1000000
   \<and> scoreLine en_US_integer False
       \<lparr>score = Num 1000000, classic_score = Some (Num 987654), c300 = Num 500,
        c100 = Num 10, c50 = Num 0, misses = Num 1, cEnds = Num 90, max_combo = Num 800,
        accuracy = Num (97 / 100), pp = Num (4321 / 10), rank = ''S'',
        mods = [\<lparr>acronym = ''HD''\<rparr>], leaderboard = Num 7, full_combo = False,
        cSliders = Num 100\<rparr> = ''Score: 987,654''
   \<and> map_option (displayedScore True)
       (extractScoreData (noOverrides\<lparr>ov_score := ''5''\<rparr>) None (Some sampleMap))
       = Some (Num 5)"
proof -
  let ?data = "sampleScore\<lparr>data_score := (data_score sampleScore)\<lparr>up_classic_score := Num 987654\<rparr>\<rparr>"
  let ?sd = "\<lparr>score = Num 1000000, classic_score = Some (Num 987654), c300 = Num 500,
        c100 = Num 10, c50 = Num 0, misses = Num 1, cEnds = Num 90, max_combo = Num 800,
        accuracy = Num (97 / 100), pp = Num (4321 / 10), rank = ''S'',
        mods = [\<lparr>acronym = ''HD''\<rparr>], leaderboard = Num 7, full_combo = False,
        cSliders = Num 100\<rparr>"
  let ?ov = "noOverrides\<lparr>ov_score := ''5''\<rparr>"
  have ex: "extractScoreData noOverrides (Some ?data) None = Some ?sd"
    by (simp add: extractScoreData_def)
  have fmt: "en_US_integer (Num 987654) = ''987,654''"
    by code_simp
  have p5: "parseInt ''5'' = Num 5"
    by code_simp
  note c = displayedScore_spec [of ?sd False en_US_integer noOverrides ?data None sampleMap]
  have a: "displayedScore False ?sd = Num 987654"
    using c ex by simp
  have b: "displayedScore True ?sd = Num 1000000"
    using c ex by simp
  have l: "scoreLine en_US_integer False ?sd = ''Score: 987,654''"
    using c a fmt by simp
  obtain pd where pd: "extractScoreData ?ov None (Some sampleMap) = Some pd"
    by (simp add: extractScoreData_def)
  note last = displayedScore_spec [of pd True en_US_integer ?ov ?data None sampleMap,
      THEN conjunct2, THEN conjunct2, THEN conjunct2, THEN conjunct2, THEN conjunct2]
  have "displayedScore True pd = (if ov_score ?ov \<noteq> [] then parseInt (ov_score ?ov) else Num 0)"
    using last pd by (rule mp)
  then have "displayedScore True pd = Num 5"
    by (simp add: p5)
  with pd have p: "map_option (displayedScore True)
       (extractScoreData ?ov None (Some sampleMap)) = Some (Num 5)"
    by simp
  from ex a b l p show ?thesis by (intro conjI)
qed

subsection \<open>Performance points display\<close>

lemma Math_round_Num:
  "\<exists>n::int. Math_round (Num r) = Num (of_int n) \<and> of_int n - 1 / 2 \<le> r \<and> r < of_int n + 1 / 2"
proof -
  have "of_int \<lfloor>r + 1 / 2\<rfloor> \<le> r + 1 / 2" and "r + 1 / 2 < of_int \<lfloor>r + 1 / 2\<rfloor> + 1"
    by linarith+
  then have "of_int \<lfloor>r + 1 / 2\<rfloor> - 1 / 2 \<le> r \<and> r < of_int \<lfloor>r + 1 / 2\<rfloor> + 1 / 2"
    by (simp add: algebra_simps)
  then show ?thesis
    by (auto simp: Math_round_def)
qed

lemma extract_pp_field:
  assumes "extractScoreData ov (Some data) cm = Some sd"
  shows "pp sd = (if ov_pp ov \<noteq> [] then parseFloat (ov_pp ov) else up_pp (data_score data))"
proof -
  have "map_option pp (extractScoreData ov (Some data) cm)
          = Some (if ov_pp ov \<noteq> [] then parseFloat (ov_pp ov) else up_pp (data_score data))"
    by (simp add: extractScoreData_def)
  with assms show ?thesis by simp
qed

lemma parseFloat_1234_5: "parseFloat ''1234.5'' = Num (2469 / 2)"
  by code_simp

lemma parseFloat_abc: "parseFloat ''abc'' = NaN"
  by code_simp

lemma parseFloat_500: "parseFloat ''500'' = Num 500"
  by code_simp

lemma format_1235: "en_US_integer (Math_round (Num (2469 / 2))) = ''1,235''"
  by code_simp

lemma format_NaN: "en_US_integer (Math_round NaN) = ''NaN''"
  by code_simp

text \<open>
  C5, as the claim states it, fails for a loved map. With 1234.5 in the \<^verbatim>\<open>ppOverride\<close>
  input the display is not that value with a heart but the rounded 1,235, then
  \<^verbatim>\<open>pp\<close>, a space and the heart; with \<^verbatim>\<open>abc\<close> there it is \<^verbatim>\<open>NaNpp\<close> and the
  heart. And with the performance points of the score overridden to 500 (the \<^verbatim>\<open>pp\<close>
  override of the score fields) and the \<^verbatim>\<open>ppOverride\<close> input empty, the display is the
  heart alone.
\<close>

theorem getPpDisplay_loved_counterexample:
  "isLoved lovedBeatmap
   \<and> parseFloat ''1234.5'' = Num (2469 / 2)
   \<and> getPpDisplay en_US_integer ''1234.5''
        \<lparr>score = Num 1000000, classic_score = Some (Num 987654),
         c300 = Num 500, c100 = Num 10, c50 = Num 0, misses = Num 1, cEnds = Num 90,
         max_combo = Num 800, accuracy = Num (97 / 100), pp = Num 500, rank = ''S'',
         mods = [\<lparr>acronym = ''HD''\<rparr>], leaderboard = Num 7, full_combo = False,
         cSliders = Num 100\<rparr>
        (isLoved lovedBeatmap) = ''1,235pp '' @ heart
   \<and> getPpDisplay en_US_integer ''abc''
        \<lparr>score = Num 1000000, classic_score = Some (Num 987654),
         c300 = Num 500, c100 = Num 10, c50 = Num 0, misses = Num 1, cEnds = Num 90,
         max_combo = Num 800, accuracy = Num (97 / 100), pp = Num 500, rank = ''S'',
         mods = [\<lparr>acronym = ''HD''\<rparr>], leaderboard = Num 7, full_combo = False,
         cSliders = Num 100\<rparr>
        (isLoved lovedBeatmap) = ''NaNpp '' @ heart
   \<and> extractScoreData (noOverrides\<lparr>ov_pp := ''500''\<rparr>)
        (Some (classicScore\<lparr>score_beatmap := lovedBeatmap\<rparr>)) None
       = Some \<lparr>score = Num 987654, classic_score = Some (Num 987654),
         c300 = Num 500, c100 = Num 10, c50 = Num 0, misses = Num 1, cEnds = Num 90,
         max_combo = Num 800, accuracy = Num (97 / 100), pp = Num 500, rank = ''S'',
         mods = [\<lparr>acronym = ''HD''\<rparr>], leaderboard = Num 7, full_combo = False,
         cSliders = Num 100\<rparr>
   \<and> getPpDisplay en_US_integer ''''
        \<lparr>score = Num 987654, classic_score = Some (Num 987654),
         c300 = Num 500, c100 = Num 10, c50 = Num 0, misses = Num 1, cEnds = Num 90,
         max_combo = Num 800, accuracy = Num (97 / 100), pp = Num 500, rank = ''S'',
         mods = [\<lparr>acronym = ''HD''\<rparr>], leaderboard = Num 7, full_combo = False,
         cSliders = Num 100\<rparr>
        (isLoved lovedBeatmap) = heart"
  by (simp add: isLoved_def getPpDisplay_def formatScore_def extractScoreData_def
      parseFloat_1234_5 parseFloat_abc parseFloat_500 format_1235 format_NaN)

text \<open>
  C5, amended. For every score: when the beatmap status is \<open>loved\<close> the display is the
  heart alone if the \<^verbatim>\<open>ppOverride\<close> input is empty, whatever performance points the
  score holds, overridden or not; and otherwise it is that input parsed as a number,
  rounded to an integer and formatted (\<open>NaN\<close> when the text starts with no number),
  followed by \<^verbatim>\<open>pp\<close>, a space and a heart. For every other status it is the performance
  value of the score (its override as parsed when one is filled in, else the upstream
  value), rounded to an integer and formatted, followed by \<^verbatim>\<open>pp\<close>. Rounding a finite
  value gives the nearest integer, and \<open>NaN\<close> stays \<open>NaN\<close>.
\<close>

theorem getPpDisplay_spec:
  "(status b = ''loved'' \<and> ppOverride = [] \<longrightarrow>
      getPpDisplay toLocaleString ppOverride sd (isLoved b) = heart)
   \<and> (status b = ''loved'' \<and> ppOverride \<noteq> [] \<longrightarrow>
      getPpDisplay toLocaleString ppOverride sd (isLoved b)
        = toLocaleString (Math_round (parseFloat ppOverride)) @ ''pp '' @ heart)
   \<and> (status b \<noteq> ''loved'' \<longrightarrow>
      getPpDisplay toLocaleString ppOverride sd (isLoved b)
        = toLocaleString (Math_round (pp sd)) @ ''pp'')
   \<and> (status b \<noteq> ''loved'' \<and> extractScoreData ov (Some data) cm = Some sd \<longrightarrow>
      getPpDisplay toLocaleString ppOverride sd (isLoved b)
        = toLocaleString
            (Math_round (if ov_pp ov \<noteq> [] then parseFloat (ov_pp ov)
                         else up_pp (data_score data))) @ ''pp'')
   \<and> (\<exists>n::int. Math_round (Num r) = Num (of_int n)
         \<and> of_int n - 1 / 2 \<le> r \<and> r < of_int n + 1 / 2)
   \<and> Math_round NaN = NaN"
proof (intro conjI impI)
  show "getPpDisplay toLocaleString ppOverride sd (isLoved b) = heart"
    if "status b = ''loved'' \<and> ppOverride = []"
    using that by (simp add: getPpDisplay_def isLoved_def)
  show "getPpDisplay toLocaleString ppOverride sd (isLoved b)
        = toLocaleString (Math_round (parseFloat ppOverride)) @ ''pp '' @ heart"
    if "status b = ''loved'' \<and> ppOverride \<noteq> []"
    using that by (simp add: getPpDisplay_def isLoved_def formatScore_def)
  show "getPpDisplay toLocaleString ppOverride sd (isLoved b)
        = toLocaleString (Math_round (pp sd)) @ ''pp''"
    if "status b \<noteq> ''loved''"
    using that by (simp add: getPpDisplay_def isLoved_def formatScore_def)
  show "getPpDisplay toLocaleString ppOverride sd (isLoved b)
        = toLocaleString
            (Math_round (if ov_pp ov \<noteq> [] then parseFloat (ov_pp ov)
                         else up_pp (data_score data))) @ ''pp''"
    if "status b \<noteq> ''loved'' \<and> extractScoreData ov (Some data) cm = Some sd"
  proof -
    from that have "pp sd = (if ov_pp ov \<noteq> [] then parseFloat (ov_pp ov)
                             else up_pp (data_score data))"
      using extract_pp_field [of ov data cm sd] by simp
    with that show ?thesis
      by (simp add: getPpDisplay_def isLoved_def formatScore_def)
  qed
  show "\<exists>n::int. Math_round (Num r) = Num (of_int n)
         \<and> of_int n - 1 / 2 \<le> r \<and> r < of_int n + 1 / 2"
    by (rule Math_round_Num)
  show "Math_round NaN = NaN"
    by (simp add: Math_round_def)
qed

theorem getPpDisplay_spec_witness:
  "getPpDisplay en_US_integer '''' \<lparr>score = Num 1000000, classic_score = Some (Num 987654),
        c300 = Num 500, c100 = Num 10, c50 = Num 0, misses = Num 1, cEnds = Num 90,
        max_combo = Num 800, accuracy = Num (97 / 100), pp = Num (4321 / 10), rank = ''S'',
        mods = [], leaderboard = Num 7, full_combo = False, cSliders = Num 100\<rparr>
      (isLoved (sampleBeatmap\<lparr>status := ''loved''\<rparr>)) = heart
   \<and> getPpDisplay en_US_integer ''1234.5'' \<lparr>score = Num 1000000,
        classic_score = Some (Num 987654),
        c300 = Num 500, c100 = Num 10, c50 = Num 0, misses = Num 1, cEnds = Num 90,
        max_combo = Num 800, accuracy = Num (97 / 100), pp = Num (4321 / 10), rank = ''S'',
        mods = [], leaderboard = Num 7, full_combo = False, cSliders = Num 100\<rparr>
      (isLoved (sampleBeatmap\<lparr>status := ''loved''\<rparr>)) = ''1,235pp '' @ heart
   \<and> getPpDisplay en_US_integer ''1234.5'' \<lparr>score = Num 1000000,
        classic_score = Some (Num 987654),
        c300 = Num 500, c100 = Num 10, c50 = Num 0, misses = Num 1, cEnds = Num 90,
        max_combo = Num 800, accuracy = Num (97 / 100), pp = Num (4321 / 10), rank = ''S'',
        mods = [], leaderboard = Num 7, full_combo = False, cSliders = Num 100\<rparr>
      (isLoved sampleBeatmap) = ''432pp''
   \<and> getPpDisplay en_US_integer [] \<lparr>score = Num 987654,
        classic_score = Some (Num 987654),
        c300 = Num 500, c100 = Num 10, c50 = Num 0, misses = Num 1, cEnds = Num 90,
        max_combo = Num 800, accuracy = Num (97 / 100), pp = Num 500, rank = ''S'',
        mods = [\<lparr>acronym = ''HD''\<rparr>], leaderboard = Num 7, full_combo = False,
        cSliders = Num 100\<rparr>
      (isLoved sampleBeatmap) = ''500pp''"
proof -
  let ?sd = "\<lparr>score = Num 1000000, classic_score = Some (Num 987654),
        c300 = Num 500, c100 = Num 10, c50 = Num 0, misses = Num 1, cEnds = Num 90,
        max_combo = Num 800, accuracy = Num (97 / 100), pp = Num (4321 / 10), rank = ''S'',
        mods = [], leaderboard = Num 7, full_combo = False, cSliders = Num 100\<rparr>"
  let ?loved = "sampleBeatmap\<lparr>status := ''loved''\<rparr>"
  have f1: "en_US_integer (Math_round (parseFloat ''1234.5'')) = ''1,235''"
    by code_simp
  have f2: "en_US_integer (Math_round (Num (4321 / 10))) = ''432''"
    by code_simp
  have a: "getPpDisplay en_US_integer '''' ?sd (isLoved ?loved) = heart"
    using getPpDisplay_spec [of ?loved "''''" en_US_integer ?sd] by simp
  have b: "getPpDisplay en_US_integer ''1234.5'' ?sd (isLoved ?loved) = ''1,235pp '' @ heart"
    using getPpDisplay_spec [of ?loved "''1234.5''" en_US_integer ?sd] f1 by simp
  have c: "getPpDisplay en_US_integer ''1234.5'' ?sd (isLoved sampleBeatmap) = ''432pp''"
    using getPpDisplay_spec [of sampleBeatmap "''1234.5''" en_US_integer ?sd] f2 by simp
  let ?ov = "noOverrides\<lparr>ov_pp := ''500''\<rparr>"
  let ?xd = "\<lparr>score = Num 987654, classic_score = Some (Num 987654),
        c300 = Num 500, c100 = Num 10, c50 = Num 0, misses = Num 1, cEnds = Num 90,
        max_combo = Num 800, accuracy = Num (97 / 100), pp = Num 500, rank = ''S'',
        mods = [\<lparr>acronym = ''HD''\<rparr>], leaderboard = Num 7, full_combo = False,
        cSliders = Num 100\<rparr>"
  have ex: "extractScoreData ?ov (Some classicScore) None = Some ?xd"
    by (simp add: extractScoreData_def parseFloat_500)
  have f3: "en_US_integer (Math_round (Num 500)) = ''500''"
    by code_simp
  have d: "getPpDisplay en_US_integer [] ?xd (isLoved sampleBeatmap) = ''500pp''"
    using getPpDisplay_spec
      [where b = sampleBeatmap and ppOverride = "[]" and toLocaleString = en_US_integer
         and sd = ?xd and ov = ?ov and data = classicScore and cm = None]
      ex f3
    by (simp add: parseFloat_500)
  from a b c d show ?thesis by (intro conjI)
qed

subsection \<open>Title fitting\<close>

declare truncateLoop.simps [simp del]

lemma truncateLoop_stop:
  assumes "\<not> (w (t @ ''..'') > a \<and> length t > 5)"
  shows "truncateLoop w a t = t"
  by (subst truncateLoop.simps) (simp only: if_not_P [OF assms])

lemma truncateLoop_step:
  "w (t @ ''..'') > a \<Longrightarrow> length t > 5 \<Longrightarrow> truncateLoop w a t = truncateLoop w a (butlast t)"
  by (subst truncateLoop.simps) simp

lemma truncateLoop_exit:
  "w (truncateLoop w a t @ ''..'') \<le> a \<or> length (truncateLoop w a t) \<le> 5"
proof (induction w a t rule: truncateLoop.induct)
  case (1 w a t)
  show ?case
  proof (cases "w (t @ ''..'') > a \<and> length t > 5")
    case True
    then show ?thesis using 1 by (simp add: truncateLoop_step)
  next
    case False
    then show ?thesis by (auto simp: truncateLoop_stop)
  qed
qed

lemma truncateLoop_length_ge:
  "5 \<le> length t \<Longrightarrow> 5 \<le> length (truncateLoop w a t)"
proof (induction w a t rule: truncateLoop.induct)
  case (1 w a t)
  show ?case
  proof (cases "w (t @ ''..'') > a \<and> length t > 5")
    case True
    then have "5 < length t" by simp
    then have "5 \<le> length (butlast t)" by simp
    with True 1 show ?thesis by (simp add: truncateLoop_step)
  next
    case False
    then show ?thesis using 1(2) by (simp add: truncateLoop_stop)
  qed
qed

lemma truncateLoop_length_le: "length (truncateLoop w a t) \<le> length t"
proof (induction w a t rule: truncateLoop.induct)
  case (1 w a t)
  show ?case
  proof (cases "w (t @ ''..'') > a \<and> length t > 5")
    case True
    with 1 have "length (truncateLoop w a (butlast t)) \<le> length (butlast t)" by simp
    with True show ?thesis by (simp add: truncateLoop_step)
  next
    case False
    then show ?thesis by (simp add: truncateLoop_stop)
  qed
qed

text \<open>The loop only removes characters from the end: its result is a prefix of the title.\<close>

lemma truncateLoop_prefix: "truncateLoop w a t = take (length (truncateLoop w a t)) t"
proof (induction w a t rule: truncateLoop.induct)
  case (1 w a t)
  show ?case
  proof (cases "w (t @ ''..'') > a \<and> length t > 5")
    case True
    let ?L = "truncateLoop w a (butlast t)"
    have step: "truncateLoop w a t = ?L"
      using True by (simp add: truncateLoop_step)
    have ih: "?L = take (length ?L) (butlast t)"
      using 1 True by simp
    have le: "length ?L \<le> length t - 1"
      using truncateLoop_length_le [of w a "butlast t"] by simp
    have "take (length ?L) (butlast t) = take (length ?L) (take (length t - 1) t)"
      by (simp only: butlast_conv_take)
    also have "\<dots> = take (min (length ?L) (length t - 1)) t"
      by (simp only: take_take)
    also have "\<dots> = take (length ?L) t"
      using le by (simp only: min_absorb1)
    finally have "take (length ?L) (butlast t) = take (length ?L) t" .
    with ih have "?L = take (length ?L) t"
      by simp
    then show ?thesis
      by (simp only: step)
  next
    case False
    then show ?thesis by (simp add: truncateLoop_stop)
  qed
qed

text \<open>A result that still does not fit is the first five characters and the two dots.\<close>

lemma truncateLoop_floor:
  assumes "length (truncateLoop w a t) < length t"
    and "w (truncateLoop w a t @ ''..'') > a"
  shows "length (truncateLoop w a t) = 5"
proof -
  from assms(2) truncateLoop_exit [of w a t] have le: "length (truncateLoop w a t) \<le> 5"
    by simp
  have "5 \<le> length t"
  proof (rule ccontr)
    assume "\<not> 5 \<le> length t"
    then have "truncateLoop w a t = t" by (simp add: truncateLoop_stop)
    with assms(1) show False by simp
  qed
  then have "5 \<le> length (truncateLoop w a t)" by (rule truncateLoop_length_ge)
  with le show ?thesis by simp
qed

text \<open>
  Fitting five characters and the two dots again, when they do not fit: the loop either
  stops at once (four dots fit) or walks back to the five characters (three dots do not
  fit either). Only when three dots fit and four do not does it stop in between.
\<close>

lemma fitTitle_floor:
  assumes len: "length T = 5"
    and wide: "w (T @ ''..'') > a"
    and ok: "\<not> (w (T @ ''...'') \<le> a \<and> a < w (T @ ''....''))"
  shows "fitTitle w a (T @ ''..'') = T @ ''..''"
proof (cases "a < w (T @ ''....'')")
  case True
  with ok have three: "a < w (T @ ''...'')" by simp
  have "truncateLoop w a (T @ ''..'') = truncateLoop w a (butlast (T @ ''..''))"
    using True len by (intro truncateLoop_step) simp_all
  also have "butlast (T @ ''..'') = T @ ''.''"
    by (simp add: butlast_append)
  also have "truncateLoop w a (T @ ''.'') = truncateLoop w a (butlast (T @ ''.''))"
    using three len by (intro truncateLoop_step) simp_all
  also have "butlast (T @ ''.'') = T"
    by simp
  also have "truncateLoop w a T = T"
    using len by (simp add: truncateLoop_stop)
  finally have "truncateLoop w a (T @ ''..'') = T" .
  then show ?thesis
    using wide by (simp add: fitTitle_def)
next
  case False
  then have "truncateLoop w a (T @ ''..'') = T @ ''..''"
    by (intro truncateLoop_stop) simp
  then show ?thesis
    using wide by (simp add: fitTitle_def)
qed

lemma fitTitle_fits: "w t \<le> a \<Longrightarrow> fitTitle w a t = t"
  by (simp add: fitTitle_def)

lemma fitTitle_idem:
  assumes ok: "\<not> (a < w (take 5 t @ ''..'') \<and> w (take 5 t @ ''...'') \<le> a
                  \<and> a < w (take 5 t @ ''....''))"
  shows "fitTitle w a (fitTitle w a t) = fitTitle w a t"
proof (cases "w t \<le> a")
  case True
  then show ?thesis by (simp add: fitTitle_fits)
next
  case wide: False
  let ?T = "truncateLoop w a t"
  show ?thesis
  proof (cases "length ?T < length t")
    case False
    then have "fitTitle w a t = ?T"
      using wide by (simp add: fitTitle_def)
    moreover have "?T = t"
    proof (cases "w (t @ ''..'') > a \<and> length t > 5")
      case True
      then have step: "?T = truncateLoop w a (butlast t)" by (simp add: truncateLoop_step)
      have "length (truncateLoop w a (butlast t)) \<le> length (butlast t)"
        by (rule truncateLoop_length_le)
      also from True have "length (butlast t) < length t"
        by (cases t rule: rev_cases) auto
      finally have "length ?T < length t" by (simp only: step)
      with False show ?thesis by simp
    next
      case False
      then show ?thesis by (simp add: truncateLoop_stop)
    qed
    ultimately show ?thesis by simp
  next
    case cut: True
    then have r: "fitTitle w a t = ?T @ ''..''"
      using wide by (simp add: fitTitle_def)
    show ?thesis
    proof (cases "w (?T @ ''..'') \<le> a")
      case True
      then show ?thesis by (simp add: r fitTitle_fits)
    next
      case False
      then have over: "w (?T @ ''..'') > a" by simp
      have len: "length ?T = 5"
        using cut over by (rule truncateLoop_floor)
      have "?T = take (length ?T) t"
        by (rule truncateLoop_prefix)
      then have T5: "?T = take 5 t"
        by (simp only: len)
      have "\<not> (w (?T @ ''...'') \<le> a \<and> a < w (?T @ ''....''))"
        using ok over by (simp add: T5 [symmetric])
      with len over have "fitTitle w a (?T @ ''..'') = ?T @ ''..''"
        by (rule fitTitle_floor)
      then show ?thesis by (simp add: r)
    qed
  qed
qed

text \<open>
  C8, as the claim states it, fails. With the sample measure and eight mod icons
  (available width 200) the title \<^verbatim>\<open>abcdefgh\<close> is cut to its first five characters and
  two dots, which is still too wide (252); fitting that result again finds that four dots
  do not fit (236) but three do (200), and returns the five characters with three dots.
\<close>

theorem adjustTitleSize_idempotent_counterexample:
  "calculateTitleSpace 8 = 200
   \<and> adjustTitleSize ligatureWidth True 8 ''abcdefgh'' = ''abcde..''
   \<and> adjustTitleSize ligatureWidth True 8 ''abcde..'' = ''abcde...''"
  by (simp add: adjustTitleSize_def fitTitle_def calculateTitleSpace_def truncateLoop.simps
      ligatureWidth_def)

text \<open>
  C8, amended. For every title string and available width, a title whose measured width
  already fits is returned unchanged; and fitting the fitted (possibly truncated) title
  again returns it unchanged, except when the measure is such that the title's first five
  characters followed by two dots and followed by four dots are wider than the available
  width while followed by three dots they fit. This holds for the fitting at any given
  width and for \<^verbatim>\<open>adjustTitleSize\<close> with any number of mod icons, with or without the
  title element.
\<close>

theorem adjustTitleSize_idempotent:
  "(getTextWidth t \<le> availableWidth \<longrightarrow> fitTitle getTextWidth availableWidth t = t)
   \<and> (\<not> (availableWidth < getTextWidth (take 5 t @ ''..'')
          \<and> getTextWidth (take 5 t @ ''...'') \<le> availableWidth
          \<and> availableWidth < getTextWidth (take 5 t @ ''....'')) \<longrightarrow>
        fitTitle getTextWidth availableWidth (fitTitle getTextWidth availableWidth t)
          = fitTitle getTextWidth availableWidth t)
   \<and> (getTextWidth t \<le> calculateTitleSpace modIcons \<longrightarrow>
        adjustTitleSize getTextWidth titleElement modIcons t = t)
   \<and> (\<not> (calculateTitleSpace modIcons < getTextWidth (take 5 t @ ''..'')
          \<and> getTextWidth (take 5 t @ ''...'') \<le> calculateTitleSpace modIcons
          \<and> calculateTitleSpace modIcons < getTextWidth (take 5 t @ ''....'')) \<longrightarrow>
        adjustTitleSize getTextWidth titleElement modIcons
            (adjustTitleSize getTextWidth titleElement modIcons t)
          = adjustTitleSize getTextWidth titleElement modIcons t)"
proof (intro conjI impI)
  show "fitTitle getTextWidth availableWidth t = t"
    if "getTextWidth t \<le> availableWidth"
    using that by (rule fitTitle_fits)
  show "fitTitle getTextWidth availableWidth (fitTitle getTextWidth availableWidth t)
          = fitTitle getTextWidth availableWidth t"
    if "\<not> (availableWidth < getTextWidth (take 5 t @ ''..'')
          \<and> getTextWidth (take 5 t @ ''...'') \<le> availableWidth
          \<and> availableWidth < getTextWidth (take 5 t @ ''....''))"
    using that by (rule fitTitle_idem)
  show "adjustTitleSize getTextWidth titleElement modIcons t = t"
    if "getTextWidth t \<le> calculateTitleSpace modIcons"
    using that by (simp add: adjustTitleSize_def fitTitle_fits)
  show "adjustTitleSize getTextWidth titleElement modIcons
            (adjustTitleSize getTextWidth titleElement modIcons t)
          = adjustTitleSize getTextWidth titleElement modIcons t"
    if "\<not> (calculateTitleSpace modIcons < getTextWidth (take 5 t @ ''..'')
          \<and> getTextWidth (take 5 t @ ''...'') \<le> calculateTitleSpace modIcons
          \<and> calculateTitleSpace modIcons < getTextWidth (take 5 t @ ''....''))"
    using fitTitle_idem [OF that] by (simp add: adjustTitleSize_def)
qed

theorem adjustTitleSize_idempotent_witness:
  "adjustTitleSize (\<lambda>s. 40 * int (length s)) True 8 ''abcdefghij'' = ''abcde..''
   \<and> adjustTitleSize (\<lambda>s. 40 * int (length s)) True 8 ''abcde..'' = ''abcde..''
   \<and> adjustTitleSize (\<lambda>s. 40 * int (length s)) True 8 ''abcde'' = ''abcde''
   \<and> adjustTitleSize (\<lambda>s. 40 * int (length s)) True 0 ''abcdefghijklmnopqrstuvwxyz''
       = ''abcdefghijklmnopq..''
   \<and> adjustTitleSize (\<lambda>s. 40 * int (length s)) True 0 ''abcdefghijklmnopq..''
       = ''abcdefghijklmnopq..''
   \<and> adjustTitleSize ligatureWidth True 0 ''abcdefgh'' = ''abcdefgh''
   \<and> fitTitle ligatureWidth 250 ''abcdefgh'' = ''abcde..''
   \<and> fitTitle ligatureWidth 250 ''abcde..'' = ''abcde..''"
proof -
  let ?w = "\<lambda>s :: string. 40 * int (length s)"
  have s8: "calculateTitleSpace 8 = 200" and s0: "calculateTitleSpace 0 = 760"
    by (simp_all add: calculateTitleSpace_def)
  have a: "adjustTitleSize ?w True 8 ''abcdefghij'' = ''abcde..''"
    by (simp add: adjustTitleSize_def fitTitle_def calculateTitleSpace_def truncateLoop.simps)
  have b: "adjustTitleSize ?w True 0 ''abcdefghijklmnopqrstuvwxyz'' = ''abcdefghijklmnopq..''"
    by (simp add: adjustTitleSize_def fitTitle_def calculateTitleSpace_def truncateLoop.simps)
  have c: "adjustTitleSize ?w True 8 ''abcde'' = ''abcde''"
    using adjustTitleSize_idempotent
      [where getTextWidth = ?w and t = "''abcde''" and modIcons = 8 and titleElement = True
         and availableWidth = 200]
    by (simp add: s8)
  have a': "adjustTitleSize ?w True 8 ''abcde..'' = ''abcde..''"
    using adjustTitleSize_idempotent
      [where getTextWidth = ?w and t = "''abcdefghij''" and modIcons = 8
         and titleElement = True and availableWidth = 200]
    by (simp add: s8 a)
  have b': "adjustTitleSize ?w True 0 ''abcdefghijklmnopq..'' = ''abcdefghijklmnopq..''"
    using adjustTitleSize_idempotent
      [where getTextWidth = ?w and t = "''abcdefghijklmnopqrstuvwxyz''" and modIcons = 0
         and titleElement = True and availableWidth = 760]
    by (simp add: s0 b)
  have d: "adjustTitleSize ligatureWidth True 0 ''abcdefgh'' = ''abcdefgh''"
    using adjustTitleSize_idempotent
      [where getTextWidth = ligatureWidth and t = "''abcdefgh''" and modIcons = 0
         and titleElement = True and availableWidth = 760]
    by (simp add: s0 ligatureWidth_def)
  have e: "fitTitle ligatureWidth 250 ''abcdefgh'' = ''abcde..''"
    by (simp add: fitTitle_def truncateLoop.simps ligatureWidth_def)
  have e': "fitTitle ligatureWidth 250 ''abcde..'' = ''abcde..''"
    using adjustTitleSize_idempotent
      [where getTextWidth = ligatureWidth and t = "''abcdefgh''" and modIcons = 0
         and titleElement = True and availableWidth = 250]
    by (simp add: e ligatureWidth_def)
  from a a' c b b' d e e' show ?thesis by (intro conjI)
qed

end
